theory Spec2Isabelle
  imports Complex_Main "HOL-Library.Sublist"
begin

section \<open>Data model\<close>

text \<open>
  The canvas animation of \<^verbatim>\<open>src/App.js\<close> (the effect starting at line 131) is embedded
  function by function. JavaScript numbers are modelled as real numbers, so rounding,
  infinities and NaN are outside the model. \<^verbatim>\<open>Math.random()\<close> is an explicit stream
  \<open>rnd :: nat \<Rightarrow> real\<close> of the values it returns, read at a position that the state
  carries. The 2D context is a list of drawing operations in call order.

  A node is the object literal \<^verbatim>\<open>{ x, y, label }\<close>; the bus attachment points
  \<^verbatim>\<open>{ x: d.x, y: busY }\<close> have no label, hence the option. A path is an array of nodes.
\<close>

record node =
  x :: real
  y :: real
  label :: "string option"

type_synonym path = "node list"

text \<open>The packet object built by \<^verbatim>\<open>createPacket\<close> (lines 173-179).\<close>

record packet =
  x :: real
  y :: real
  path :: path
  currentSegment :: nat
  distanceTraveled :: real

text \<open>
  \<^verbatim>\<open>let packets = []\<close> is an array that also receives the property
  \<^verbatim>\<open>lastSpawnTime\<close> (line 483). The property belongs to the array object, so the
  object is a record of its elements and that property (\<open>None\<close> when it is undefined).
\<close>

record packet_array =
  elems :: "packet list"
  lastSpawnTime :: "real option"

text \<open>
  One entry per call of a drawing helper: \<^verbatim>\<open>drawDevice(ctx, x, y, radius, color, label)\<close>,
  \<^verbatim>\<open>drawConnection(ctx, x1, y1, x2, y2, color)\<close>, the bus line stroked at lines 296-301,
  \<^verbatim>\<open>ctx.fillText(text, x, y)\<close> and \<^verbatim>\<open>drawPacket(ctx, packet)\<close>.
\<close>

datatype draw_op =
    Device real real real string "string option"
  | Connection real real real real string
  | BusLine real real real real
  | Text string real real
  | PacketDot real real

text \<open>
  The variables the effect closes over: the packet array, \<^verbatim>\<open>lastTime\<close>, the canvas
  size and what is drawn on it, and the number of \<^verbatim>\<open>Math.random()\<close> values consumed.
\<close>

record anim =
  packets :: packet_array
  lastTime :: real
  canvasWidth :: real
  canvasHeight :: real
  canvas :: "draw_op list"
  rngPos :: nat

section \<open>Constants (lines 136-146)\<close>

definition deviceRadius :: real where
  "deviceRadius = 15"

definition deviceColor :: string where
  "deviceColor = ''#3B82F6''"

definition connectionColor :: string where
  "connectionColor = ''#60A5FA''"

definition textColor :: string where
  "textColor = ''#1F2937''"

definition packetSpeed :: real where
  "packetSpeed = 1.5"

definition packetInterval :: real where
  "packetInterval = 1000"

section \<open>Packet engine\<close>

text \<open>\<^verbatim>\<open>createPacket\<close> (lines 171-180): \<open>None\<close> is \<^verbatim>\<open>null\<close>.\<close>

definition createPacket :: "path \<Rightarrow> packet option" where
  "createPacket p =
     (if length p < 2 then None
      else Some \<lparr> packet.x = node.x (p ! 0), packet.y = node.y (p ! 0), path = p,
                  currentSegment = 0, distanceTraveled = 0 \<rparr>)"

text \<open>The Euclidean length computed at lines 191-193 (and at lines 265 and 411).\<close>

definition segmentLength :: "node \<Rightarrow> node \<Rightarrow> real" where
  "segmentLength startNode endNode =
     sqrt ((node.x endNode - node.x startNode)\<^sup>2 + (node.y endNode - node.y startNode)\<^sup>2)"

text \<open>
  The callback given to \<^verbatim>\<open>packets.filter\<close> (lines 183-212). It returns the flag that
  \<^verbatim>\<open>filter\<close> reads together with the packet object as the callback leaves it, since the
  callback mutates the packet before it answers.
\<close>

definition updatePacket :: "real \<Rightarrow> packet \<Rightarrow> bool \<times> packet" where
  "updatePacket deltaTime p =
     (if int (currentSegment p) \<ge> int (length (path p)) - 1 then (False, p)
      else
        let startNode = path p ! currentSegment p;
            endNode = path p ! (currentSegment p + 1);
            len = segmentLength startNode endNode;
            p1 = p\<lparr>distanceTraveled := distanceTraveled p + packetSpeed * (deltaTime / 16)\<rparr>
        in
          if distanceTraveled p1 \<ge> len then
            let p2 = p1\<lparr>currentSegment := currentSegment p1 + 1, distanceTraveled := 0\<rparr>
            in
              if int (currentSegment p2) \<ge> int (length (path p2)) - 1 then (False, p2)
              else (True, p2\<lparr>packet.x := node.x (path p2 ! currentSegment p2),
                              packet.y := node.y (path p2 ! currentSegment p2)\<rparr>)
          else
            let ratio = distanceTraveled p1 / len
            in (True, p1\<lparr>packet.x := node.x startNode + (node.x endNode - node.x startNode) * ratio,
                           packet.y := node.y startNode + (node.y endNode - node.y startNode) * ratio\<rparr>))"

text \<open>
  \<^verbatim>\<open>packets = packets.filter(...)\<close> (line 183): the kept packets, in order, as the
  callback left them.
\<close>

definition filterPackets :: "real \<Rightarrow> packet list \<Rightarrow> packet list" where
  "filterPackets deltaTime ps = map snd (filter fst (map (updatePacket deltaTime) ps))"

text \<open>
  \<^verbatim>\<open>updatePackets\<close> (lines 182-213). \<^verbatim>\<open>Array.prototype.filter\<close> returns a new
  array holding the kept elements only; the new array has no \<^verbatim>\<open>lastSpawnTime\<close>.
\<close>

definition updatePackets :: "real \<Rightarrow> anim \<Rightarrow> anim" where
  "updatePackets deltaTime st =
     st\<lparr>packets := \<lparr> elems = filterPackets deltaTime (elems (packets st)),
                       lastSpawnTime = None \<rparr>\<rparr>"

definition drawPacket :: "packet \<Rightarrow> draw_op" where
  "drawPacket p = PacketDot (packet.x p) (packet.y p)"

section \<open>Layout generation\<close>

text \<open>The decimal digits of a number inside a template string such as \<^verbatim>\<open>`Device ${i + 1}`\<close>.\<close>

fun showNat :: "nat \<Rightarrow> string" where
  "showNat n =
     (if n < 10 then [''0123456789'' ! n]
      else showNat (n div 10) @ [''0123456789'' ! (n mod 10)])"

declare showNat.simps [simp del]

text \<open>The nodes handed to \<^verbatim>\<open>drawDevice\<close>, in drawing order.\<close>

fun nodeOf :: "draw_op \<Rightarrow> node list" where
  "nodeOf (Device px py radius color l) = [\<lparr> node.x = px, node.y = py, label = l \<rparr>]"
| "nodeOf (Connection x1 y1 x2 y2 color) = []"
| "nodeOf (BusLine x1 y1 x2 y2) = []"
| "nodeOf (Text s px py) = []"
| "nodeOf (PacketDot px py) = []"

definition drawnNodes :: "draw_op list \<Rightarrow> node list" where
  "drawnNodes ops = concat (map nodeOf ops)"

text \<open>\<^verbatim>\<open>drawStarTopology\<close> (lines 223-250): the drawing operations and the returned paths.\<close>

definition drawStarTopology ::
  "real \<Rightarrow> real \<Rightarrow> real \<Rightarrow> string \<Rightarrow> string \<Rightarrow> string \<Rightarrow> draw_op list \<times> path list" where
  "drawStarTopology width height r dColor cColor tColor =
     (let centerX = width / 2;
          centerY = height / 2;
          hub = \<lparr> node.x = centerX, node.y = centerY, label = Some ''Router/Hub'' \<rparr>;
          numDevices = (5::nat);
          spreadRadius = min width height * 0.35;
          devices = map (\<lambda>i.
              let angle = (real i / real numDevices) * pi * 2
              in \<lparr> node.x = centerX + spreadRadius * cos angle,
                   node.y = centerY + spreadRadius * sin angle,
                   label = Some (''Device '' @ showNat (i + 1)) \<rparr>) [0..<numDevices];
          ops = Device (node.x hub) (node.y hub) (r + 5) ''#EF4444'' (label hub) #
                concat (map (\<lambda>device.
                  [Device (node.x device) (node.y device) r dColor (label device),
                   Connection (node.x hub) (node.y hub) (node.x device) (node.y device) cColor])
                  devices);
          paths = concat (map (\<lambda>device. [[hub, device], [device, hub]]) devices)
      in (ops, paths))"

text \<open>
  The inner \<^verbatim>\<open>for ... of\<close> loop of the rejection sampling (lines 264-270 and 410-416):
  whether the candidate is closer than \<open>r * 4\<close> to a device placed before.
\<close>

fun collides :: "real \<Rightarrow> real \<Rightarrow> real \<Rightarrow> node list \<Rightarrow> bool" where
  "collides px py r [] = False"
| "collides px py r (existingDevice # rest) =
     (if sqrt ((px - node.x existingDevice)\<^sup>2 + (py - node.y existingDevice)\<^sup>2) < r * 4
      then True else collides px py r rest)"

text \<open>
  The \<^verbatim>\<open>do ... while (collision)\<close> loop (lines 260-271 and 406-417). \<open>fx\<close> and \<open>fy\<close>
  turn a random value into a coordinate. The loop has no bound: when every candidate
  collides it does not return, which is the value \<open>None\<close>. The result is the accepted
  candidate and the position in the random stream after it.
\<close>

partial_function (option) placeDevice ::
  "(nat \<Rightarrow> real) \<Rightarrow> (real \<Rightarrow> real) \<Rightarrow> (real \<Rightarrow> real) \<Rightarrow> real \<Rightarrow> node list \<Rightarrow> nat
     \<Rightarrow> (real \<times> real \<times> nat) option" where
  "placeDevice rnd fx fy r devices pos =
     (let px = fx (rnd pos);
          py = fy (rnd (pos + 1))
      in if collides px py r devices
         then placeDevice rnd fx fy r devices (pos + 2)
         else Some (px, py, pos + 2))"

text \<open>
  The outer \<^verbatim>\<open>for\<close> loop (lines 257-273 and 403-420) over the indices \<open>is\<close>: each
  accepted candidate is pushed with the label \<open>lbl i\<close>.
\<close>

fun placeDevices ::
  "(nat \<Rightarrow> real) \<Rightarrow> (real \<Rightarrow> real) \<Rightarrow> (real \<Rightarrow> real) \<Rightarrow> real \<Rightarrow> (nat \<Rightarrow> string) \<Rightarrow> nat list
     \<Rightarrow> node list \<Rightarrow> nat \<Rightarrow> (node list \<times> nat) option" where
  "placeDevices rnd fx fy r lbl [] devices pos = Some (devices, pos)"
| "placeDevices rnd fx fy r lbl (i # is) devices pos =
     (case placeDevice rnd fx fy r devices pos of
        None \<Rightarrow> None
      | Some (px, py, pos') \<Rightarrow>
          placeDevices rnd fx fy r lbl is
            (devices @ [\<lparr> node.x = px, node.y = py, label = Some (lbl i) \<rparr>]) pos')"

text \<open>
  The index pairs \<open>i < j\<close> of the nested loops at lines 276-282 and 422-428, in loop order.
\<close>

definition indexPairs :: "nat \<Rightarrow> (nat \<times> nat) list" where
  "indexPairs n = concat (map (\<lambda>i. map (\<lambda>j. (i, j)) [i + 1..<n]) [0..<n])"

text \<open>The placement loop of \<^verbatim>\<open>drawMeshTopology\<close> (lines 253-273).\<close>

definition meshPlacement ::
  "real \<Rightarrow> real \<Rightarrow> real \<Rightarrow> (nat \<Rightarrow> real) \<Rightarrow> nat \<Rightarrow> (node list \<times> nat) option" where
  "meshPlacement width height r rnd pos =
     (let numDevices = (5::nat);
          padding = r * 2
      in placeDevices rnd
           (\<lambda>u. padding + u * (width - 2 * padding))
           (\<lambda>u. padding + u * (height - 2 * padding))
           r (\<lambda>i. ''Device '' @ showNat (i + 1)) [0..<numDevices] [] pos)"

text \<open>\<^verbatim>\<open>drawMeshTopology\<close> (lines 252-286).\<close>

definition drawMeshTopology ::
  "real \<Rightarrow> real \<Rightarrow> real \<Rightarrow> string \<Rightarrow> string \<Rightarrow> string \<Rightarrow> (nat \<Rightarrow> real) \<Rightarrow> nat
     \<Rightarrow> (draw_op list \<times> path list \<times> nat) option" where
  "drawMeshTopology width height r dColor cColor tColor rnd pos =
     (case meshPlacement width height r rnd pos of
        None \<Rightarrow> None
      | Some (devices, pos') \<Rightarrow>
          let pairs = indexPairs (length devices);
              ops = map (\<lambda>(i, j). Connection (node.x (devices ! i)) (node.y (devices ! i))
                                     (node.x (devices ! j)) (node.y (devices ! j)) cColor) pairs
                    @ map (\<lambda>device. Device (node.x device) (node.y device) r dColor (label device))
                        devices;
              paths = concat (map (\<lambda>(i, j). [[devices ! i, devices ! j],
                                              [devices ! j, devices ! i]]) pairs)
          in Some (ops, paths, pos'))"

text \<open>\<^verbatim>\<open>drawBusTopology\<close> (lines 288-323).\<close>

definition drawBusTopology ::
  "real \<Rightarrow> real \<Rightarrow> real \<Rightarrow> string \<Rightarrow> string \<Rightarrow> string \<Rightarrow> draw_op list \<times> path list" where
  "drawBusTopology width height r dColor cColor tColor =
     (let busY = height / 2;
          numDevices = (5::nat);
          startX = width * 0.1;
          endX = width * 0.9;
          busLength = endX - startX;
          deviceSpacing = busLength / (real numDevices - 1);
          devices = map (\<lambda>i. \<lparr> node.x = startX + real i * deviceSpacing,
                                node.y = busY + r * 2,
                                label = Some (''Device '' @ showNat (i + 1)) \<rparr>) [0..<numDevices];
          ops = [BusLine startX busY endX busY, Text ''Main Bus'' (width / 2) (busY - 20)] @
                concat (map (\<lambda>device.
                  [Device (node.x device) (node.y device) r dColor (label device),
                   Connection (node.x device) (node.y device - r) (node.x device) busY cColor])
                  devices);
          busNodes = map (\<lambda>d. \<lparr> node.x = node.x d, node.y = busY, label = None \<rparr>) devices;
          paths = concat (map (\<lambda>i. [[busNodes ! i, busNodes ! (i + 1)],
                                      [busNodes ! (i + 1), busNodes ! i]])
                            [0..<length busNodes - 1])
      in (ops, paths))"

text \<open>\<^verbatim>\<open>drawTreeTopology\<close> (lines 325-374).\<close>

definition drawTreeTopology ::
  "real \<Rightarrow> real \<Rightarrow> real \<Rightarrow> string \<Rightarrow> string \<Rightarrow> string \<Rightarrow> draw_op list \<times> path list" where
  "drawTreeTopology width height r dColor cColor tColor =
     (let root = \<lparr> node.x = width / 2, node.y = height * 0.15, label = Some ''Root Hub'' \<rparr>;
          level1Y = height * 0.45;
          level1A = \<lparr> node.x = width * 0.25, node.y = level1Y, label = Some ''Sub-Hub A'' \<rparr>;
          level1B = \<lparr> node.x = width * 0.75, node.y = level1Y, label = Some ''Sub-Hub B'' \<rparr>;
          level2Y = height * 0.75;
          devices = [\<lparr> node.x = width * 0.15, node.y = level2Y, label = Some ''Device 1'' \<rparr>,
                     \<lparr> node.x = width * 0.35, node.y = level2Y, label = Some ''Device 2'' \<rparr>,
                     \<lparr> node.x = width * 0.65, node.y = level2Y, label = Some ''Device 3'' \<rparr>,
                     \<lparr> node.x = width * 0.85, node.y = level2Y, label = Some ''Device 4'' \<rparr>];
          dev = (\<lambda>n c. Device (node.x n) (node.y n) r c (label n));
          con = (\<lambda>a b. Connection (node.x a) (node.y a) (node.x b) (node.y b) cColor);
          ops = [dev root ''#EF4444'',
                 dev level1A ''#F59E0B'', con root level1A,
                 dev level1B ''#F59E0B'', con root level1B,
                 dev (devices ! 0) dColor, con level1A (devices ! 0),
                 dev (devices ! 1) dColor, con level1A (devices ! 1),
                 dev (devices ! 2) dColor, con level1B (devices ! 2),
                 dev (devices ! 3) dColor, con level1B (devices ! 3)];
          paths = [[root, level1A], [level1A, root],
                   [root, level1B], [level1B, root],
                   [level1A, devices ! 0], [devices ! 0, level1A],
                   [level1A, devices ! 1], [devices ! 1, level1A],
                   [level1B, devices ! 2], [devices ! 2, level1B],
                   [level1B, devices ! 3], [devices ! 3, level1B]]
      in (ops, paths))"

text \<open>The star cluster of \<^verbatim>\<open>drawHybridTopology\<close> (lines 380-394): hub and devices.\<close>

definition hybridStarHub :: "real \<Rightarrow> real \<Rightarrow> node" where
  "hybridStarHub width height =
     \<lparr> node.x = width * 0.25, node.y = height / 2, label = Some ''Star Hub'' \<rparr>"

definition hybridStarDevices :: "real \<Rightarrow> real \<Rightarrow> node list" where
  "hybridStarDevices width height =
     (let starHub = hybridStarHub width height;
          starSpread = width * 0.1
      in map (\<lambda>i.
            let angle = (real i / 3) * pi * 2
            in \<lparr> node.x = node.x starHub + starSpread * cos angle,
                 node.y = node.y starHub + starSpread * sin angle,
                 label = Some (''S-Dev '' @ showNat (i + 1)) \<rparr>) [0..<3])"

text \<open>The placement loop of the mesh cluster of \<^verbatim>\<open>drawHybridTopology\<close> (lines 397-420).\<close>

definition hybridMeshPlacement ::
  "real \<Rightarrow> real \<Rightarrow> real \<Rightarrow> (nat \<Rightarrow> real) \<Rightarrow> nat \<Rightarrow> (node list \<times> nat) option" where
  "hybridMeshPlacement width height r rnd pos =
     (let meshPaddingX = width * 0.6;
          meshPaddingY = height * 0.1;
          meshWidth = width * 0.3;
          meshHeight = height * 0.8
      in placeDevices rnd
           (\<lambda>u. meshPaddingX + u * meshWidth)
           (\<lambda>u. meshPaddingY + u * meshHeight)
           r (\<lambda>i. ''M-Dev '' @ showNat (i + 1)) [0..<3] [] pos)"

text \<open>\<^verbatim>\<open>drawHybridTopology\<close> (lines 376-440).\<close>

definition drawHybridTopology ::
  "real \<Rightarrow> real \<Rightarrow> real \<Rightarrow> string \<Rightarrow> string \<Rightarrow> string \<Rightarrow> (nat \<Rightarrow> real) \<Rightarrow> nat
     \<Rightarrow> (draw_op list \<times> path list \<times> nat) option" where
  "drawHybridTopology width height r dColor cColor tColor rnd pos =
     (let starHub = hybridStarHub width height;
          starDevices = hybridStarDevices width height;
          starOps = Device (node.x starHub) (node.y starHub) (r + 5) ''#EF4444'' (label starHub) #
                    concat (map (\<lambda>device.
                      [Device (node.x device) (node.y device) r dColor (label device),
                       Connection (node.x starHub) (node.y starHub)
                         (node.x device) (node.y device) cColor]) starDevices);
          starPaths = concat (map (\<lambda>device. [[starHub, device], [device, starHub]]) starDevices)
      in case hybridMeshPlacement width height r rnd pos of
           None \<Rightarrow> None
         | Some (meshDevices, pos') \<Rightarrow>
             let pairs = indexPairs (length meshDevices);
                 meshOps =
                   map (\<lambda>(i, j). Connection (node.x (meshDevices ! i)) (node.y (meshDevices ! i))
                          (node.x (meshDevices ! j)) (node.y (meshDevices ! j)) cColor) pairs
                   @ map (\<lambda>device. Device (node.x device) (node.y device) r ''#10B981''
                            (label device)) meshDevices;
                 meshPaths = concat (map (\<lambda>(i, j). [[meshDevices ! i, meshDevices ! j],
                                                     [meshDevices ! j, meshDevices ! i]]) pairs);
                 bridge = length starDevices > 0 \<and> length meshDevices > 0;
                 bridgeOps =
                   (if bridge then
                      [Connection (node.x starHub) (node.y starHub)
                         (node.x (meshDevices ! 0)) (node.y (meshDevices ! 0)) ''#DC2626'',
                       Text ''Bridge Link'' ((node.x starHub + node.x (meshDevices ! 0)) / 2)
                         ((node.y starHub + node.y (meshDevices ! 0)) / 2 - 10)]
                    else []);
                 bridgePaths =
                   (if bridge then [[starHub, meshDevices ! 0], [meshDevices ! 0, starHub]]
                    else [])
             in Some (starOps @ meshOps @ bridgeOps,
                      starPaths @ meshPaths @ bridgePaths, pos'))"

section \<open>Animation driver\<close>

text \<open>
  The \<^verbatim>\<open>switch (selectedTopology)\<close> of \<^verbatim>\<open>animate\<close> (lines 455-474), with the
  constants it passes. The default case draws the star.
\<close>

definition drawTopology ::
  "string \<Rightarrow> real \<Rightarrow> real \<Rightarrow> (nat \<Rightarrow> real) \<Rightarrow> nat \<Rightarrow> (draw_op list \<times> path list \<times> nat) option" where
  "drawTopology selectedTopology width height rnd pos =
     (let star = (case drawStarTopology width height deviceRadius deviceColor connectionColor
                         textColor of (ops, paths) \<Rightarrow> Some (ops, paths, pos))
      in if selectedTopology = ''star'' then star
         else if selectedTopology = ''mesh'' then
           drawMeshTopology width height deviceRadius deviceColor connectionColor textColor rnd pos
         else if selectedTopology = ''bus'' then
           (case drawBusTopology width height deviceRadius deviceColor connectionColor textColor
            of (ops, paths) \<Rightarrow> Some (ops, paths, pos))
         else if selectedTopology = ''tree'' then
           (case drawTreeTopology width height deviceRadius deviceColor connectionColor textColor
            of (ops, paths) \<Rightarrow> Some (ops, paths, pos))
         else if selectedTopology = ''hybrid'' then
           drawHybridTopology width height deviceRadius deviceColor connectionColor textColor
             rnd pos
         else star)"

text \<open>
  The spawn block of \<^verbatim>\<open>animate\<close> (lines 476-486). \<^verbatim>\<open>packets.lastSpawnTime || 0\<close> reads
  0 when the property is undefined. \<^verbatim>\<open>Math.random()\<close> is consumed only when the two
  guards pass. \<^verbatim>\<open>packets.push\<close> and the assignment of the property act on the same
  array object.
\<close>

definition spawnPacket :: "path list \<Rightarrow> (nat \<Rightarrow> real) \<Rightarrow> real \<Rightarrow> anim \<Rightarrow> anim" where
  "spawnPacket currentPaths rnd currentTime st =
     (if currentTime - (case lastSpawnTime (packets st) of None \<Rightarrow> 0 | Some t \<Rightarrow> t)
           > packetInterval then
        if length currentPaths > 0 then
          let randomPath =
                currentPaths ! nat \<lfloor>rnd (rngPos st) * real (length currentPaths)\<rfloor>;
              st1 = st\<lparr>rngPos := rngPos st + 1\<rparr>
          in case createPacket randomPath of
               None \<Rightarrow> st1
             | Some newPacket \<Rightarrow>
                 st1\<lparr>packets := \<lparr> elems = elems (packets st1) @ [newPacket],
                                    lastSpawnTime = Some currentTime \<rparr>\<rparr>
        else st
      else st)"

text \<open>
  \<^verbatim>\<open>animate\<close> up to the end of the spawn block (lines 444-486): the elapsed time, and
  the state with the canvas cleared and redrawn and the packet spawned, if any. \<open>None\<close>
  when the layout does not return.
\<close>

definition animateSpawn ::
  "string \<Rightarrow> (nat \<Rightarrow> real) \<Rightarrow> real \<Rightarrow> anim \<Rightarrow> (real \<times> anim) option" where
  "animateSpawn selectedTopology rnd currentTime st =
     (let deltaTime = currentTime - lastTime st;
          st1 = st\<lparr>lastTime := currentTime, canvas := []\<rparr>
      in case drawTopology selectedTopology (canvasWidth st1) (canvasHeight st1) rnd (rngPos st1)
         of None \<Rightarrow> None
          | Some (ops, currentPaths, pos') \<Rightarrow>
              Some (deltaTime,
                    spawnPacket currentPaths rnd currentTime
                      (st1\<lparr>canvas := ops, rngPos := pos'\<rparr>)))"

text \<open>
  \<^verbatim>\<open>animate\<close> (lines 443-492): one frame. The request for the next frame is the caller
  running \<open>animate\<close> again with the next timestamp.
\<close>

definition animate :: "string \<Rightarrow> (nat \<Rightarrow> real) \<Rightarrow> real \<Rightarrow> anim \<Rightarrow> anim option" where
  "animate selectedTopology rnd currentTime st =
     (case animateSpawn selectedTopology rnd currentTime st of
        None \<Rightarrow> None
      | Some (deltaTime, st2) \<Rightarrow>
          let st3 = updatePackets deltaTime st2
          in Some (st3\<lparr>canvas := canvas st3 @ map drawPacket (elems (packets st3))\<rparr>))"

text \<open>
  \<^verbatim>\<open>resizeCanvas\<close> (lines 495-505), given \<^verbatim>\<open>canvas.offsetWidth\<close> (a
  non-negative integer number of pixels) and the value of \<^verbatim>\<open>performance.now()\<close>.
  \<^verbatim>\<open>canvas.width\<close> and \<^verbatim>\<open>canvas.height\<close> are integer attributes: the assigned
  value \<^verbatim>\<open>Math.min(canvas.offsetWidth * 0.6, 400)\<close> is stored without its fraction.
  \<^verbatim>\<open>packets = []\<close> is a fresh array, without \<^verbatim>\<open>lastSpawnTime\<close>.
\<close>

definition resizeCanvas ::
  "string \<Rightarrow> (nat \<Rightarrow> real) \<Rightarrow> nat \<Rightarrow> real \<Rightarrow> anim \<Rightarrow> anim option" where
  "resizeCanvas selectedTopology rnd offsetWidth now st =
     (let st1 = st\<lparr>canvasWidth := real offsetWidth,
                    canvasHeight := of_int \<lfloor>min (real offsetWidth * 0.6) 400\<rfloor>\<rparr>;
          st2 = st1\<lparr>lastTime := now\<rparr>;
          st3 = st2\<lparr>packets := \<lparr> elems = [], lastSpawnTime = None \<rparr>\<rparr>
      in animate selectedTopology rnd now st3)"

text \<open>
  Whether the frame at \<open>currentTime\<close> spawns a packet: the spawn block of that frame
  pushes onto the packet array.
\<close>

definition spawnsAt :: "string \<Rightarrow> (nat \<Rightarrow> real) \<Rightarrow> real \<Rightarrow> anim \<Rightarrow> bool" where
  "spawnsAt selectedTopology rnd currentTime st =
     (case animateSpawn selectedTopology rnd currentTime st of
        None \<Rightarrow> False
      | Some (deltaTime, st2) \<Rightarrow>
          length (elems (packets st2)) = length (elems (packets st)) + 1)"

text \<open>
  The frame loop over the timestamps of successive frames: the number of frames that
  spawned a packet and the final state.
\<close>

fun runFrames :: "string \<Rightarrow> (nat \<Rightarrow> real) \<Rightarrow> real list \<Rightarrow> anim \<Rightarrow> (nat \<times> anim) option" where
  "runFrames selectedTopology rnd [] st = Some (0, st)"
| "runFrames selectedTopology rnd (currentTime # stamps) st =
     (case animate selectedTopology rnd currentTime st of
        None \<Rightarrow> None
      | Some st' \<Rightarrow>
          (case runFrames selectedTopology rnd stamps st' of
             None \<Rightarrow> None
           | Some (n, st'') \<Rightarrow>
               Some ((if spawnsAt selectedTopology rnd currentTime st then n + 1 else n), st'')))"

text \<open>The variables as the effect declares them (lines 144-145), before the first resize.\<close>

definition initialAnim :: anim where
  "initialAnim = \<lparr> packets = \<lparr> elems = [], lastSpawnTime = None \<rparr>, lastTime = 0,
                   canvasWidth = 0, canvasHeight = 0, canvas = [], rngPos = 0 \<rparr>"

text \<open>A random stream that always returns 0, for concrete runs.\<close>

definition zeroRng :: "nat \<Rightarrow> real" where
  "zeroRng n = 0"

section \<open>Spacing of placed devices\<close>

text \<open>
  Devices are far apart when every device is at distance at least \<open>r * 4\<close> from every
  device after it in the list.
\<close>

fun farApart :: "real \<Rightarrow> node list \<Rightarrow> bool" where
  "farApart r [] = True"
| "farApart r (d # ds) = ((\<forall>e\<in>set ds. r * 4 \<le> segmentLength d e) \<and> farApart r ds)"

section \<open>Sample inputs\<close>

text \<open>A horizontal path of length 10, a packet at its start and a state holding it.\<close>

definition samplePath :: path where
  "samplePath = [\<lparr> node.x = 0, node.y = 0, label = Some ''A'' \<rparr>,
                 \<lparr> node.x = 10, node.y = 0, label = Some ''B'' \<rparr>]"

definition samplePacket :: packet where
  "samplePacket = \<lparr> packet.x = 0, packet.y = 0, path = samplePath,
                    currentSegment = 0, distanceTraveled = 0 \<rparr>"

definition sampleAnim :: anim where
  "sampleAnim = \<lparr> packets = \<lparr> elems = [samplePacket], lastSpawnTime = Some 4000 \<rparr>,
                  lastTime = 4000, canvasWidth = 400, canvasHeight = 240, canvas = [],
                  rngPos = 0 \<rparr>"

text \<open>
  Twelve values of \<^verbatim>\<open>Math.random()\<close>; the second candidate they give collides with
  the first device and is rejected.
\<close>

definition sampleRng :: "nat \<Rightarrow> real" where
  "sampleRng n =
     (if n < 12 then [0, 0, 1 / 10, 0, 1 / 2, 0, 0, 1 / 2, 1 / 2, 1 / 2, 1 / 4, 1 / 4] ! n else 0)"

text \<open>
  The devices that the mesh loop and the hybrid mesh loop place on a 400 x 240 canvas
  with radius 15 from these values.
\<close>

definition sampleMeshDevices :: "node list" where
  "sampleMeshDevices =
     [\<lparr> node.x = 30, node.y = 30, label = Some ''Device 1'' \<rparr>,
      \<lparr> node.x = 200, node.y = 30, label = Some ''Device 2'' \<rparr>,
      \<lparr> node.x = 30, node.y = 120, label = Some ''Device 3'' \<rparr>,
      \<lparr> node.x = 200, node.y = 120, label = Some ''Device 4'' \<rparr>,
      \<lparr> node.x = 115, node.y = 75, label = Some ''Device 5'' \<rparr>]"

definition sampleHybridDevices :: "node list" where
  "sampleHybridDevices =
     [\<lparr> node.x = 240, node.y = 24, label = Some ''M-Dev 1'' \<rparr>,
      \<lparr> node.x = 300, node.y = 24, label = Some ''M-Dev 2'' \<rparr>,
      \<lparr> node.x = 240, node.y = 120, label = Some ''M-Dev 3'' \<rparr>]"

section \<open>Helper lemmas\<close>

lemma filterPackets_alt:
  "filterPackets deltaTime ps =
     map (\<lambda>p. snd (updatePacket deltaTime p)) (filter (\<lambda>p. fst (updatePacket deltaTime p)) ps)"
  by (induction ps) (simp_all add: filterPackets_def)

lemma updatePacket_step:
  "updatePacket deltaTime p = (True, q) \<Longrightarrow>
     path q = path p \<and>
     (currentSegment q = currentSegment p \<or> currentSegment q = currentSegment p + 1)"
  by (auto simp: updatePacket_def Let_def split: if_splits)

lemma showNat_digits: "n < 10 \<Longrightarrow> showNat n = [''0123456789'' ! n]"
  by (simp add: showNat.simps)

lemma upt5: "[0..<5] = [0, 1, 2, 3, 4::nat]"
  by (simp add: upt_rec)

lemma sqrt_100: "sqrt 100 = 10"
  by (rule real_sqrt_unique) simp_all

lemma samplePacket_step:
  "updatePacket 16 samplePacket =
     (True, samplePacket\<lparr>distanceTraveled := 3 / 2, packet.x := 3 / 2\<rparr>)"
  by (simp add: updatePacket_def samplePacket_def samplePath_def segmentLength_def
      packetSpeed_def Let_def sqrt_100)

lemma upt4: "[0..<4] = [0, 1, 2, 3::nat]"
  by (simp add: upt_rec)

lemma upt3: "[0..<3] = [0, 1, 2::nat]"
  by (simp add: upt_rec)

lemma collides_iff:
  "collides px py r ds \<longleftrightarrow>
     (\<exists>d\<in>set ds. sqrt ((px - node.x d)\<^sup>2 + (py - node.y d)\<^sup>2) < r * 4)"
  by (induction ds) auto

lemma placeDevice_accepts_aux:
  assumes "placeDevice rnd fx fy r devices pos = Some res"
  shows "\<not> collides (fst res) (fst (snd res)) r devices"
  by (rule placeDevice.raw_induct [OF _ assms,
        where P = "\<lambda>rnd fx fy r devices pos res. \<not> collides (fst res) (fst (snd res)) r devices"])
     (auto simp: Let_def split: if_splits)

lemma placeDevice_accepts:
  "placeDevice rnd fx fy r devices pos = Some (px, py, pos') \<Longrightarrow> \<not> collides px py r devices"
  using placeDevice_accepts_aux by fastforce

lemma farApart_snoc:
  "farApart r (ds @ [n]) \<longleftrightarrow> farApart r ds \<and> (\<forall>d\<in>set ds. r * 4 \<le> segmentLength d n)"
  by (induction ds) auto

lemma farApart_nth:
  "farApart r ds \<Longrightarrow> i < j \<Longrightarrow> j < length ds \<Longrightarrow> r * 4 \<le> segmentLength (ds ! i) (ds ! j)"
proof (induction ds arbitrary: i j)
  case Nil
  then show ?case by simp
next
  case (Cons d ds)
  show ?case
  proof (cases i)
    case 0
    with Cons.prems show ?thesis by (cases j) auto
  next
    case (Suc i')
    with Cons.prems obtain j' where "j = Suc j'" by (cases j) auto
    with Suc Cons show ?thesis by auto
  qed
qed

lemma segmentLength_sym: "segmentLength a b = segmentLength b a"
  by (simp add: segmentLength_def power2_commute)

lemma placeDevices_farApart:
  "placeDevices rnd fx fy r lbl is devices pos = Some (out, pos') \<Longrightarrow> farApart r devices
     \<Longrightarrow> farApart r out"
proof (induction "is" arbitrary: devices pos)
  case Nil
  then show ?case by simp
next
  case (Cons i "is")
  from Cons.prems(1) obtain px py pos1 where
    acc: "placeDevice rnd fx fy r devices pos = Some (px, py, pos1)" and
    rest: "placeDevices rnd fx fy r lbl is
             (devices @ [\<lparr> node.x = px, node.y = py, label = Some (lbl i) \<rparr>]) pos1 = Some (out, pos')"
    by (auto split: option.splits)
  from placeDevice_accepts [OF acc]
  have "\<forall>d\<in>set devices. r * 4 \<le> segmentLength d \<lparr> node.x = px, node.y = py, label = Some (lbl i) \<rparr>"
    by (auto simp: collides_iff segmentLength_def not_less)
  with Cons.prems(2)
  have "farApart r (devices @ [\<lparr> node.x = px, node.y = py, label = Some (lbl i) \<rparr>])"
    by (simp add: farApart_snoc)
  from Cons.IH [OF rest this] show ?case .
qed

lemma placeDevices_length:
  "placeDevices rnd fx fy r lbl is devices pos = Some (out, pos') \<Longrightarrow>
     length out = length devices + length is"
  by (induction "is" arbitrary: devices pos) (auto split: option.splits)

lemma indexPairs_bound: "(i, j) \<in> set (indexPairs n) \<Longrightarrow> i < n \<and> j < n"
  by (auto simp: indexPairs_def)

lemma drawnNodes_append: "drawnNodes (a @ b) = drawnNodes a @ drawnNodes b"
  by (simp add: drawnNodes_def)

lemma drawnNodes_connections:
  "drawnNodes (map (\<lambda>(i, j). Connection (f i) (g i) (f j) (g j) c) pairs) = []"
  by (induction pairs) (auto simp: drawnNodes_def)

lemma drawnNodes_devices:
  "drawnNodes (map (\<lambda>d. Device (node.x d) (node.y d) r c (label d)) ds) = ds"
  by (induction ds) (auto simp: drawnNodes_def)

lemma drawnNodes_star_devices:
  "drawnNodes (concat (map (\<lambda>d. [Device (node.x d) (node.y d) r c (label d),
                                  Connection hx hy (node.x d) (node.y d) c']) ds)) = ds"
  by (induction ds) (auto simp: drawnNodes_def)

lemma pair_paths:
  "p \<in> set (concat (map (\<lambda>(i, j). [[ds ! i, ds ! j], [ds ! j, ds ! i]]) (indexPairs (length ds))))
     \<Longrightarrow> length p = 2 \<and> set p \<subseteq> set ds"
  by (auto dest!: indexPairs_bound)

lemma mesh_endpoints:
  assumes "drawMeshTopology width height r dColor cColor tColor rnd pos = Some (ops, paths, pos')"
    and "p \<in> set paths"
  shows "length p = 2 \<and> set p \<subseteq> set (drawnNodes ops)"
proof -
  from assms(1) obtain devices where
    ops: "drawnNodes ops = devices" and
    paths: "paths = concat (map (\<lambda>(i, j). [[devices ! i, devices ! j], [devices ! j, devices ! i]])
                             (indexPairs (length devices)))"
    by (auto simp: drawMeshTopology_def Let_def drawnNodes_append drawnNodes_connections
        drawnNodes_devices split: option.splits)
  from pair_paths assms(2) show ?thesis
    unfolding ops paths by blast
qed

lemma hybrid_shape:
  assumes "drawHybridTopology width height r dColor cColor tColor rnd pos = Some (ops, paths, pos')"
  shows "\<exists>meshDevices.
           hybridMeshPlacement width height r rnd pos = Some (meshDevices, pos') \<and>
           drawnNodes ops =
             hybridStarHub width height # hybridStarDevices width height @ meshDevices \<and>
           paths =
             concat (map (\<lambda>device. [[hybridStarHub width height, device],
                                      [device, hybridStarHub width height]])
                       (hybridStarDevices width height)) @
             concat (map (\<lambda>(i, j). [[meshDevices ! i, meshDevices ! j],
                                     [meshDevices ! j, meshDevices ! i]])
                       (indexPairs (length meshDevices))) @
             (if length (hybridStarDevices width height) > 0 \<and> length meshDevices > 0
              then [[hybridStarHub width height, meshDevices ! 0],
                    [meshDevices ! 0, hybridStarHub width height]]
              else [])"
proof -
  let ?hub = "hybridStarHub width height"
  let ?star = "hybridStarDevices width height"
  from assms obtain meshDevices where
    placed: "hybridMeshPlacement width height r rnd pos = Some (meshDevices, pos')"
    by (auto simp: drawHybridTopology_def Let_def split: option.splits)
  have hub: "drawnNodes [Device (node.x ?hub) (node.y ?hub) (r + 5) ''#EF4444'' (label ?hub)]
               = [?hub]"
    by (simp add: drawnNodes_def)
  have bridge: "drawnNodes [Connection a b c d e, Text s t u] = []" for a b c d e s t u
    by (simp add: drawnNodes_def)
  have empty: "drawnNodes [] = []"
    by (simp add: drawnNodes_def)
  have ops_eq: "ops = [Device (node.x ?hub) (node.y ?hub) (r + 5) ''#EF4444'' (label ?hub)] @
          concat (map (\<lambda>device.
                      [Device (node.x device) (node.y device) r dColor (label device),
                       Connection (node.x ?hub) (node.y ?hub)
                         (node.x device) (node.y device) cColor]) ?star) @
          map (\<lambda>(i, j). Connection (node.x (meshDevices ! i)) (node.y (meshDevices ! i))
                          (node.x (meshDevices ! j)) (node.y (meshDevices ! j)) cColor)
            (indexPairs (length meshDevices)) @
          map (\<lambda>device. Device (node.x device) (node.y device) r ''#10B981'' (label device))
            meshDevices @
          (if length ?star > 0 \<and> length meshDevices > 0 then
                      [Connection (node.x ?hub) (node.y ?hub)
                         (node.x (meshDevices ! 0)) (node.y (meshDevices ! 0)) ''#DC2626'',
                       Text ''Bridge Link'' ((node.x ?hub + node.x (meshDevices ! 0)) / 2)
                         ((node.y ?hub + node.y (meshDevices ! 0)) / 2 - 10)]
                    else [])"
    using assms placed by (simp add: drawHybridTopology_def Let_def)
  have ops: "drawnNodes ops = ?hub # ?star @ meshDevices"
    unfolding ops_eq drawnNodes_append hub drawnNodes_connections drawnNodes_devices
      drawnNodes_star_devices
    by (simp add: bridge empty)
  have paths: "paths = concat (map (\<lambda>device. [[?hub, device], [device, ?hub]]) ?star) @
              concat (map (\<lambda>(i, j). [[meshDevices ! i, meshDevices ! j],
                                      [meshDevices ! j, meshDevices ! i]])
                        (indexPairs (length meshDevices))) @
              (if length ?star > 0 \<and> length meshDevices > 0
               then [[?hub, meshDevices ! 0], [meshDevices ! 0, ?hub]] else [])"
    using assms placed by (simp add: drawHybridTopology_def Let_def)
  from placed ops paths show ?thesis
    by blast
qed

lemma hybrid_endpoints:
  assumes "drawHybridTopology width height r dColor cColor tColor rnd pos = Some (ops, paths, pos')"
    and "p \<in> set paths"
  shows "length p = 2 \<and> set p \<subseteq> set (drawnNodes ops)"
proof -
  let ?hub = "hybridStarHub width height"
  let ?star = "hybridStarDevices width height"
  from hybrid_shape [OF assms(1)] obtain meshDevices where
    ops: "drawnNodes ops = ?hub # ?star @ meshDevices" and
    paths: "paths = concat (map (\<lambda>device. [[?hub, device], [device, ?hub]]) ?star) @
              concat (map (\<lambda>(i, j). [[meshDevices ! i, meshDevices ! j],
                                      [meshDevices ! j, meshDevices ! i]])
                        (indexPairs (length meshDevices))) @
              (if length ?star > 0 \<and> length meshDevices > 0
               then [[?hub, meshDevices ! 0], [meshDevices ! 0, ?hub]] else [])"
    by blast
  from assms(2) consider
    (star) "p \<in> set (concat (map (\<lambda>device. [[?hub, device], [device, ?hub]]) ?star))" |
    (mesh) "p \<in> set (concat (map (\<lambda>(i, j). [[meshDevices ! i, meshDevices ! j],
                                      [meshDevices ! j, meshDevices ! i]])
                        (indexPairs (length meshDevices))))" |
    (bridge) "meshDevices \<noteq> []" "p = [?hub, meshDevices ! 0] \<or> p = [meshDevices ! 0, ?hub]"
    unfolding paths by (auto split: if_splits)
  then show ?thesis
  proof cases
    case star
    then show ?thesis
      unfolding ops by auto
  next
    case mesh
    from pair_paths [OF this] show ?thesis
      unfolding ops by auto
  next
    case bridge
    then have "meshDevices ! 0 \<in> set meshDevices"
      by simp
    with bridge(2) show ?thesis
      unfolding ops by auto
  qed
qed

lemma sqrt_less_iff_square: "0 \<le> b \<Longrightarrow> (sqrt a < b) = (a < b\<^sup>2)"
  by (metis abs_of_nonneg real_sqrt_abs real_sqrt_less_iff)

lemma sample_mesh:
  "meshPlacement 400 240 15 sampleRng 0 = Some (sampleMeshDevices, 12)"
  by (simp add: meshPlacement_def Let_def upt5 placeDevice.simps sampleRng_def
      sampleMeshDevices_def sqrt_less_iff_square showNat_digits)

lemma sample_hybrid:
  "hybridMeshPlacement 400 240 15 sampleRng 0 = Some (sampleHybridDevices, 8)"
  by (simp add: hybridMeshPlacement_def Let_def upt3 placeDevice.simps sampleRng_def
      sampleHybridDevices_def sqrt_less_iff_square showNat_digits)

lemma mesh_drawn:
  assumes "drawMeshTopology width height r dColor cColor tColor rnd pos = Some (ops, paths, pos')"
  shows "meshPlacement width height r rnd pos = Some (drawnNodes ops, pos')"
  using assms
  by (auto simp: drawMeshTopology_def Let_def drawnNodes_append drawnNodes_connections
      drawnNodes_devices split: option.splits)

lemma hybridStarDevices_length: "length (hybridStarDevices width height) = 3"
  by (simp add: hybridStarDevices_def Let_def)

lemma hybrid_drawn:
  assumes "drawHybridTopology width height r dColor cColor tColor rnd pos = Some (ops, paths, pos')"
  shows "hybridMeshPlacement width height r rnd pos = Some (drop 4 (drawnNodes ops), pos')"
proof -
  from hybrid_shape [OF assms] obtain meshDevices where
    placed: "hybridMeshPlacement width height r rnd pos = Some (meshDevices, pos')" and
    ops: "drawnNodes ops =
            hybridStarHub width height # hybridStarDevices width height @ meshDevices"
    by blast
  show ?thesis
    unfolding ops placed by (simp add: hybridStarDevices_length)
qed

lemma sample_mesh_draw:
  "drawMeshTopology 400 240 15 deviceColor connectionColor textColor sampleRng 0 =
     Some (fst (the (drawMeshTopology 400 240 15 deviceColor connectionColor textColor sampleRng 0)),
           fst (snd (the (drawMeshTopology 400 240 15 deviceColor connectionColor textColor
                            sampleRng 0))), 12)"
  by (simp add: drawMeshTopology_def sample_mesh Let_def)

lemma sample_hybrid_draw:
  "drawHybridTopology 400 240 15 deviceColor connectionColor textColor sampleRng 0 =
     Some (fst (the (drawHybridTopology 400 240 15 deviceColor connectionColor textColor
                       sampleRng 0)),
           fst (snd (the (drawHybridTopology 400 240 15 deviceColor connectionColor textColor
                            sampleRng 0))), 8)"
  by (simp add: drawHybridTopology_def sample_hybrid Let_def)

lemma spawnPacket_elems:
  "elems (packets (spawnPacket currentPaths rnd currentTime st)) = elems (packets st) \<or>
   (\<exists>currentPath newPacket. createPacket currentPath = Some newPacket \<and>
      elems (packets (spawnPacket currentPaths rnd currentTime st)) =
        elems (packets st) @ [newPacket])"
  by (auto simp: spawnPacket_def Let_def split: option.splits)

lemma animateSpawn_elems:
  assumes "animateSpawn selectedTopology rnd currentTime st = Some (deltaTime, st2)"
  shows "deltaTime = currentTime - lastTime st \<and>
         (elems (packets st2) = elems (packets st) \<or>
          (\<exists>currentPath newPacket. createPacket currentPath = Some newPacket \<and>
             elems (packets st2) = elems (packets st) @ [newPacket]))"
proof -
  from assms obtain ops currentPaths pos' where
    st2: "st2 = spawnPacket currentPaths rnd currentTime
            (st\<lparr>lastTime := currentTime, canvas := ops, rngPos := pos'\<rparr>)"
    and dt: "deltaTime = currentTime - lastTime st"
    by (auto simp: animateSpawn_def Let_def split: option.splits)
  from spawnPacket_elems [of currentPaths rnd currentTime
      "st\<lparr>lastTime := currentTime, canvas := ops, rngPos := pos'\<rparr>"] dt
  show ?thesis
    unfolding st2 by simp
qed

lemma animate_elems:
  assumes "animate selectedTopology rnd currentTime st = Some st'"
  shows "\<exists>st2. animateSpawn selectedTopology rnd currentTime st
                  = Some (currentTime - lastTime st, st2) \<and>
               elems (packets st') = filterPackets (currentTime - lastTime st) (elems (packets st2)) \<and>
               lastSpawnTime (packets st') = None"
proof -
  from assms obtain deltaTime st2 where
    sp: "animateSpawn selectedTopology rnd currentTime st = Some (deltaTime, st2)"
    by (auto simp: animate_def split: option.splits)
  from animateSpawn_elems [OF sp] have dt: "deltaTime = currentTime - lastTime st"
    by simp
  from assms sp have "elems (packets st') = filterPackets deltaTime (elems (packets st2))"
    "lastSpawnTime (packets st') = None"
    by (auto simp: animate_def Let_def updatePackets_def)
  with sp dt show ?thesis by auto
qed

lemma resizeCanvas_prior:
  "resizeCanvas selectedTopology rnd offsetWidth now (st\<lparr>packets := pa, lastTime := lt\<rparr>) =
   resizeCanvas selectedTopology rnd offsetWidth now st"
  by (simp add: resizeCanvas_def Let_def)

lemma tree_topology:
  "drawTopology ''tree'' width height rnd pos =
     Some (fst (drawTreeTopology width height deviceRadius deviceColor connectionColor textColor),
           snd (drawTreeTopology width height deviceRadius deviceColor connectionColor textColor),
           pos)"
  by (simp add: drawTopology_def split: prod.splits)

lemma tree_first_path:
  "snd (drawTreeTopology 400 240 r dColor cColor tColor) \<noteq> [] \<and>
   snd (drawTreeTopology 400 240 r dColor cColor tColor) ! 0 =
     [\<lparr> node.x = 200, node.y = 36, label = Some ''Root Hub'' \<rparr>,
      \<lparr> node.x = 100, node.y = 108, label = Some ''Sub-Hub A'' \<rparr>]"
  by (simp add: drawTreeTopology_def Let_def)

lemma sample_spawn:
  assumes "currentPaths \<noteq> []"
    and "currentPaths ! 0 = [\<lparr> node.x = 200, node.y = 36, label = Some ''Root Hub'' \<rparr>,
                             \<lparr> node.x = 100, node.y = 108, label = Some ''Sub-Hub A'' \<rparr>]"
    and "packets st = \<lparr> elems = [], lastSpawnTime = None \<rparr>"
  shows "elems (packets (spawnPacket currentPaths zeroRng 6000 st)) =
           [\<lparr> packet.x = 200, packet.y = 36, path = currentPaths ! 0, currentSegment = 0,
              distanceTraveled = 0 \<rparr>]"
  using assms by (simp add: spawnPacket_def createPacket_def packetInterval_def zeroRng_def Let_def)

lemma sample_keep:
  "filterPackets 0
     [\<lparr> packet.x = 200, packet.y = 36,
        path = [\<lparr> node.x = 200, node.y = 36, label = Some ''Root Hub'' \<rparr>,
                \<lparr> node.x = 100, node.y = 108, label = Some ''Sub-Hub A'' \<rparr>],
        currentSegment = 0, distanceTraveled = 0 \<rparr>] =
     [\<lparr> packet.x = 200, packet.y = 36,
        path = [\<lparr> node.x = 200, node.y = 36, label = Some ''Root Hub'' \<rparr>,
                \<lparr> node.x = 100, node.y = 108, label = Some ''Sub-Hub A'' \<rparr>],
        currentSegment = 0, distanceTraveled = 0 \<rparr>]"
  by (simp add: filterPackets_def updatePacket_def segmentLength_def packetSpeed_def Let_def)

lemma sample_resize:
  "resizeCanvas ''tree'' zeroRng 400 6000 sampleAnim \<noteq> None \<and>
   length (elems (packets (the (resizeCanvas ''tree'' zeroRng 400 6000 sampleAnim)))) = 1"
proof -
  let ?st3 = "sampleAnim\<lparr>canvasWidth := real 400,
                 canvasHeight := of_int \<lfloor>min (real 400 * 0.6) 400\<rfloor>,
                 lastTime := 6000, packets := \<lparr> elems = [], lastSpawnTime = None \<rparr>\<rparr>"
  let ?tree = "drawTreeTopology 400 240 deviceRadius deviceColor connectionColor textColor"
  let ?st1 = "?st3\<lparr>lastTime := 6000, canvas := fst ?tree, rngPos := rngPos ?st3\<rparr>"
  have size: "canvasWidth ?st3 = 400" "canvasHeight ?st3 = 240" "lastTime ?st3 = 6000"
    by simp_all
  have spawn: "animateSpawn ''tree'' zeroRng 6000 ?st3 =
                 Some (0, spawnPacket (snd ?tree) zeroRng 6000 ?st1)"
    unfolding animateSpawn_def Let_def size
    by (simp add: tree_topology)
  have "animate ''tree'' zeroRng 6000 ?st3 \<noteq> None \<and>
        length (elems (packets (the (animate ''tree'' zeroRng 6000 ?st3)))) = 1"
    unfolding animate_def spawn
    by (simp add: updatePackets_def Let_def sample_spawn tree_first_path sample_keep)
  then show ?thesis
    by (simp add: resizeCanvas_def Let_def)
qed

lemma bus_paths:
  "snd (drawBusTopology width height r dColor cColor tColor) = paths \<Longrightarrow>
     length paths = 8 \<and> (\<forall>k<8. length (paths ! k) = 2)"
proof -
  assume a: "snd (drawBusTopology width height r dColor cColor tColor) = paths"
  have len: "length (snd (drawBusTopology width height r dColor cColor tColor)) = 8"
    by (simp add: drawBusTopology_def Let_def upt5 upt4)
  have two: "\<forall>p\<in>set (snd (drawBusTopology width height r dColor cColor tColor)). length p = 2"
    by (simp add: drawBusTopology_def Let_def upt5 upt4)
  from len two a show ?thesis
    by (metis nth_mem)
qed

lemma random_index:
  assumes "0 \<le> u" "u < 1" "0 < n"
  shows "nat \<lfloor>u * real n\<rfloor> < n"
proof -
  from assms have "u * real n < real n"
    by simp
  then have "\<lfloor>u * real n\<rfloor> < int n"
    by (simp add: floor_less_iff)
  moreover from assms have "0 \<le> \<lfloor>u * real n\<rfloor>"
    by simp
  ultimately show ?thesis
    by linarith
qed

lemma bus_frame_spawns:
  assumes rnd: "\<forall>n. 0 \<le> rnd n \<and> rnd n < 1"
    and none: "lastSpawnTime (packets st) = None"
    and late: "packetInterval < currentTime"
  shows "spawnsAt ''bus'' rnd currentTime st"
proof -
  obtain ops paths where
    bus: "drawBusTopology (canvasWidth st) (canvasHeight st) deviceRadius deviceColor
            connectionColor textColor = (ops, paths)"
    by (cases "drawBusTopology (canvasWidth st) (canvasHeight st) deviceRadius deviceColor
            connectionColor textColor")
  then have "snd (drawBusTopology (canvasWidth st) (canvasHeight st) deviceRadius deviceColor
            connectionColor textColor) = paths"
    by simp
  from bus_paths [OF this] have len: "length paths = 8" and two: "\<forall>k<8. length (paths ! k) = 2"
    by simp_all
  from rnd have "nat \<lfloor>rnd (rngPos st) * real (length paths)\<rfloor> < length paths"
    using len by (intro random_index) simp_all
  with two len have "length (paths ! nat \<lfloor>rnd (rngPos st) * real (length paths)\<rfloor>) = 2"
    by simp
  then obtain newPacket where
    "createPacket (paths ! nat \<lfloor>rnd (rngPos st) * real (length paths)\<rfloor>) = Some newPacket"
    by (simp add: createPacket_def)
  moreover from len have "paths \<noteq> []"
    by auto
  ultimately show ?thesis
    using bus none late
    by (simp add: spawnsAt_def animateSpawn_def drawTopology_def spawnPacket_def Let_def)
qed

lemma bus_frame_returns:
  "\<exists>st'. animate ''bus'' rnd currentTime st = Some st' \<and> lastSpawnTime (packets st') = None"
  by (simp add: animate_def animateSpawn_def drawTopology_def updatePackets_def Let_def
      split: prod.splits)

lemma bus_spawn_count:
  assumes rnd: "\<forall>n. 0 \<le> rnd n \<and> rnd n < 1"
  shows "lastSpawnTime (packets st) = None \<Longrightarrow> \<forall>t\<in>set stamps. packetInterval < t \<Longrightarrow>
         map_option fst (runFrames ''bus'' rnd stamps st) = Some (length stamps)"
proof (induction stamps arbitrary: st)
  case Nil
  then show ?case by simp
next
  case (Cons t stamps)
  from bus_frame_returns obtain st' where
    step: "animate ''bus'' rnd t st = Some st'" and none': "lastSpawnTime (packets st') = None"
    by blast
  from Cons.prems have "packetInterval < t" and rest: "\<forall>t\<in>set stamps. packetInterval < t"
    by simp_all
  from bus_frame_spawns [OF rnd Cons.prems(1) this(1)] have sp: "spawnsAt ''bus'' rnd t st" .
  from Cons.IH [OF none' rest] obtain st'' where
    "runFrames ''bus'' rnd stamps st' = Some (length stamps, st'')"
    by (cases "runFrames ''bus'' rnd stamps st'") auto
  with step sp show ?case
    by simp
qed

section \<open>Packet advancement\<close>

text \<open>
  C1. Let \<open>(keep, q)\<close> be what the filter callback returns for a packet \<open>p\<close> in a frame
  with elapsed time \<open>deltaTime\<close>. A packet whose segment index is already at (or past)
  the last index of its path is dropped unchanged, before it is advanced. Otherwise the
  travelled distance grows by \<open>packetSpeed * (deltaTime / 16)\<close>. If the result reaches
  the Euclidean length \<open>sqrt ((x2 - x1)\<^sup>2 + (y2 - y1)\<^sup>2)\<close> of the current segment, the segment index is incremented and the distance
  reset to 0 (the overshoot is discarded); the packet is dropped exactly when the new
  index is the last index of the path, and otherwise its position is the start of the
  new segment. If the result is below the segment length, the packet is kept on its
  segment with the new distance and its position is the linear interpolation
  \<open>start + (end - start) * (distance / length)\<close>. The packet array after
  \<open>updatePackets\<close> holds exactly the kept packets, in order, as the callback left them.
\<close>

theorem C1_packet_advance:
  assumes "updatePacket deltaTime p = (keep, q)"
  shows "(currentSegment p + 1 \<ge> length (path p) \<longrightarrow> \<not> keep \<and> q = p) \<and>
         (currentSegment p + 1 < length (path p) \<longrightarrow>
            (let advanced = distanceTraveled p + packetSpeed * (deltaTime / 16);
                 startNode = path p ! currentSegment p;
                 endNode = path p ! (currentSegment p + 1);
                 len = sqrt ((node.x endNode - node.x startNode)\<^sup>2 +
                            (node.y endNode - node.y startNode)\<^sup>2)
             in (advanced \<ge> len \<longrightarrow>
                   currentSegment q = currentSegment p + 1 \<and> distanceTraveled q = 0 \<and>
                   (\<not> keep \<longleftrightarrow> currentSegment q + 1 = length (path p)) \<and>
                   (keep \<longrightarrow> packet.x q = node.x (path p ! currentSegment q) \<and>
                             packet.y q = node.y (path p ! currentSegment q))) \<and>
                (advanced < len \<longrightarrow>
                   keep \<and> currentSegment q = currentSegment p \<and>
                   distanceTraveled q = advanced \<and>
                   packet.x q =
                     node.x startNode + (node.x endNode - node.x startNode) * (advanced / len) \<and>
                   packet.y q =
                     node.y startNode + (node.y endNode - node.y startNode) * (advanced / len)))) \<and>
         path q = path p \<and>
         elems (packets (updatePackets deltaTime st)) =
           map (\<lambda>p. snd (updatePacket deltaTime p))
             (filter (\<lambda>p. fst (updatePacket deltaTime p)) (elems (packets st)))"
proof -
  have dropped: "currentSegment p + 1 \<ge> length (path p) \<longrightarrow> \<not> keep \<and> q = p"
    using assms by (auto simp: updatePacket_def)
  have same_path: "path q = path p"
    using assms by (auto simp: updatePacket_def Let_def split: if_splits)
  have kept: "elems (packets (updatePackets deltaTime st)) =
           map (\<lambda>p. snd (updatePacket deltaTime p))
             (filter (\<lambda>p. fst (updatePacket deltaTime p)) (elems (packets st)))"
    by (simp add: updatePackets_def filterPackets_alt)
  have advanced: "currentSegment p + 1 < length (path p) \<longrightarrow>
            (let advanced = distanceTraveled p + packetSpeed * (deltaTime / 16);
                 startNode = path p ! currentSegment p;
                 endNode = path p ! (currentSegment p + 1);
                 len = sqrt ((node.x endNode - node.x startNode)\<^sup>2 +
                            (node.y endNode - node.y startNode)\<^sup>2)
             in (advanced \<ge> len \<longrightarrow>
                   currentSegment q = currentSegment p + 1 \<and> distanceTraveled q = 0 \<and>
                   (\<not> keep \<longleftrightarrow> currentSegment q + 1 = length (path p)) \<and>
                   (keep \<longrightarrow> packet.x q = node.x (path p ! currentSegment q) \<and>
                             packet.y q = node.y (path p ! currentSegment q))) \<and>
                (advanced < len \<longrightarrow>
                   keep \<and> currentSegment q = currentSegment p \<and>
                   distanceTraveled q = advanced \<and>
                   packet.x q =
                     node.x startNode + (node.x endNode - node.x startNode) * (advanced / len) \<and>
                   packet.y q =
                     node.y startNode + (node.y endNode - node.y startNode) * (advanced / len)))"
    using assms by (auto simp: updatePacket_def segmentLength_def Let_def split: if_splits)
  from dropped same_path kept advanced show ?thesis by blast
qed

theorem C1_packet_advance_witness:
  "updatePacket 16 samplePacket =
     (True, samplePacket\<lparr>distanceTraveled := 3 / 2, packet.x := 3 / 2\<rparr>) \<and>
   elems (packets (updatePackets 16 sampleAnim)) =
     [samplePacket\<lparr>distanceTraveled := 3 / 2, packet.x := 3 / 2\<rparr>]"
  using C1_packet_advance [OF samplePacket_step, of sampleAnim] samplePacket_step
  by (simp add: sampleAnim_def)

text \<open>
  C9. The division \<open>distanceTraveled / segmentLength\<close> of the interpolation branch never
  has a zero divisor. The callback leaves through the interpolation branch exactly when
  it keeps the packet on the same segment. For a packet with \<open>distanceTraveled \<ge> 0\<close>
  before the frame and an elapsed time \<open>\<ge> 0\<close>, whenever the callback does so, the
  advanced distance is below the Euclidean length of the segment, that length is
  positive, and the position is the interpolation with that positive divisor.
\<close>

theorem C9_no_zero_divisor:
  assumes "0 \<le> distanceTraveled p" and "0 \<le> deltaTime"
    and "updatePacket deltaTime p = (True, q)"
    and "currentSegment q = currentSegment p"
  shows "(let startNode = path p ! currentSegment p;
              endNode = path p ! (currentSegment p + 1);
              len = sqrt ((node.x endNode - node.x startNode)\<^sup>2 +
                          (node.y endNode - node.y startNode)\<^sup>2)
          in currentSegment p + 1 < length (path p) \<and>
             distanceTraveled q = distanceTraveled p + packetSpeed * (deltaTime / 16) \<and>
             0 \<le> distanceTraveled q \<and> distanceTraveled q < len \<and> 0 < len \<and>
             packet.x q =
               node.x startNode + (node.x endNode - node.x startNode) * (distanceTraveled q / len) \<and>
             packet.y q =
               node.y startNode + (node.y endNode - node.y startNode) * (distanceTraveled q / len))"
proof -
  let ?startNode = "path p ! currentSegment p"
  let ?endNode = "path p ! (currentSegment p + 1)"
  let ?len = "sqrt ((node.x ?endNode - node.x ?startNode)\<^sup>2 +
                    (node.y ?endNode - node.y ?startNode)\<^sup>2)"
  let ?advanced = "distanceTraveled p + packetSpeed * (deltaTime / 16)"
  have inside: "currentSegment p + 1 < length (path p)"
    using assms(3) by (auto simp: updatePacket_def split: if_splits)
  have below: "?advanced < ?len"
    using assms(3,4) inside
    by (auto simp: updatePacket_def segmentLength_def Let_def split: if_splits)
  have result: "distanceTraveled q = ?advanced"
    "packet.x q = node.x ?startNode + (node.x ?endNode - node.x ?startNode) * (?advanced / ?len)"
    "packet.y q = node.y ?startNode + (node.y ?endNode - node.y ?startNode) * (?advanced / ?len)"
    using assms(3,4) inside
    by (auto simp: updatePacket_def segmentLength_def Let_def split: if_splits)
  have "0 \<le> packetSpeed * (deltaTime / 16)"
    using assms(2) by (simp add: packetSpeed_def)
  then have nonneg: "0 \<le> ?advanced"
    using assms(1) by simp
  with below have pos: "0 < ?len"
    by linarith
  from inside below result nonneg pos show ?thesis
    by (simp add: Let_def)
qed

theorem C9_no_zero_divisor_witness:
  "updatePacket 16 samplePacket =
     (True, samplePacket\<lparr>distanceTraveled := 3 / 2, packet.x := 3 / 2\<rparr>) \<and>
   0 < sqrt ((node.x (samplePath ! 1) - node.x (samplePath ! 0))\<^sup>2 +
             (node.y (samplePath ! 1) - node.y (samplePath ! 0))\<^sup>2) \<and>
   (3 / 2 :: real) < sqrt ((node.x (samplePath ! 1) - node.x (samplePath ! 0))\<^sup>2 +
                           (node.y (samplePath ! 1) - node.y (samplePath ! 0))\<^sup>2)"
proof -
  have h1: "0 \<le> distanceTraveled samplePacket"
    by (simp add: samplePacket_def)
  have h2: "(0::real) \<le> 16"
    by simp
  have h4: "currentSegment (samplePacket\<lparr>distanceTraveled := 3 / 2, packet.x := 3 / 2\<rparr>) =
              currentSegment samplePacket"
    by simp
  from C9_no_zero_divisor [OF h1 h2 samplePacket_step h4] samplePacket_step show ?thesis
    by (simp add: Let_def samplePacket_def)
qed

text \<open>
  C10. Packet advancement never creates packets. The packet array after
  \<open>updatePackets\<close> comes from a subsequence \<open>qs\<close> of the array before it (packets are
  removed, never added or reordered): each packet of the output is the callback's result
  for the packet of \<open>qs\<close> at the same position, it keeps its path, and its segment index
  is the same or larger by exactly 1.
\<close>

theorem C10_only_removes:
  "\<exists>qs. subseq qs (elems (packets st)) \<and>
        list_all2 (\<lambda>q q'. q' = snd (updatePacket deltaTime q) \<and> path q' = path q \<and>
                     (currentSegment q' = currentSegment q \<or>
                      currentSegment q' = currentSegment q + 1))
          qs (elems (packets (updatePackets deltaTime st))) \<and>
        length (elems (packets (updatePackets deltaTime st))) \<le> length (elems (packets st))"
proof -
  let ?ps = "elems (packets st)"
  let ?qs = "filter (\<lambda>p. fst (updatePacket deltaTime p)) ?ps"
  have out: "elems (packets (updatePackets deltaTime st)) =
               map (\<lambda>p. snd (updatePacket deltaTime p)) ?qs"
    by (simp add: updatePackets_def filterPackets_alt)
  have "subseq ?qs ?ps"
    by simp
  moreover have "list_all2 (\<lambda>q q'. q' = snd (updatePacket deltaTime q) \<and> path q' = path q \<and>
                     (currentSegment q' = currentSegment q \<or>
                      currentSegment q' = currentSegment q + 1))
          ?qs (map (\<lambda>p. snd (updatePacket deltaTime p)) ?qs)"
    unfolding list_all2_map2
  proof (rule list_all2_same [THEN iffD2], intro ballI)
    fix q assume "q \<in> set ?qs"
    then have "fst (updatePacket deltaTime q)"
      by simp
    then have "updatePacket deltaTime q = (True, snd (updatePacket deltaTime q))"
      by (cases "updatePacket deltaTime q") simp
    from updatePacket_step [OF this]
    show "snd (updatePacket deltaTime q) = snd (updatePacket deltaTime q) \<and>
          path (snd (updatePacket deltaTime q)) = path q \<and>
          (currentSegment (snd (updatePacket deltaTime q)) = currentSegment q \<or>
           currentSegment (snd (updatePacket deltaTime q)) = currentSegment q + 1)"
      by simp
  qed
  moreover have "length (map (\<lambda>p. snd (updatePacket deltaTime p)) ?qs) \<le> length ?ps"
    by simp
  ultimately show ?thesis
    unfolding out by blast
qed

theorem C10_only_removes_witness:
  "\<exists>qs. subseq qs (elems (packets sampleAnim)) \<and>
        list_all2 (\<lambda>q q'. q' = snd (updatePacket 16 q) \<and> path q' = path q \<and>
                     (currentSegment q' = currentSegment q \<or>
                      currentSegment q' = currentSegment q + 1))
          qs (elems (packets (updatePackets 16 sampleAnim))) \<and>
        length (elems (packets (updatePackets 16 sampleAnim)))
          \<le> length (elems (packets sampleAnim))"
  using C10_only_removes [of sampleAnim 16] .

text \<open>
  C8. For every path with fewer than 2 points \<^verbatim>\<open>createPacket\<close> returns null, and
  when the spawn block picks such a path the packet array is unchanged: no packet is
  added and \<^verbatim>\<open>lastSpawnTime\<close> keeps its value. The model has no error outcome on
  this route, so nothing is raised.
\<close>

theorem C8_short_path_no_spawn:
  assumes "length p < 2"
  shows "createPacket p = None \<and>
         (currentPaths ! nat \<lfloor>rnd (rngPos st) * real (length currentPaths)\<rfloor> = p \<longrightarrow>
            packets (spawnPacket currentPaths rnd currentTime st) = packets st)"
  using assms by (simp add: createPacket_def spawnPacket_def Let_def)

theorem C8_short_path_no_spawn_witness:
  "length ([] :: path) < 2 \<and> createPacket [] = None \<and>
   packets (spawnPacket [[]] zeroRng 5000 initialAnim) = packets initialAnim"
proof -
  have h: "length ([] :: path) < 2"
    by simp
  have pick: "[[]] ! nat \<lfloor>zeroRng (rngPos initialAnim) * real (length [[] :: path])\<rfloor> = ([] :: path)"
    by (simp add: zeroRng_def)
  from C8_short_path_no_spawn [OF h, of "[[]]" zeroRng initialAnim 5000] pick h
  show ?thesis
    by simp
qed

section \<open>Layouts\<close>

text \<open>
  C4. On any canvas the star layout draws exactly 6 nodes: the hub at the canvas centre
  \<open>(width / 2, height / 2)\<close> and 5 devices, device \<open>i\<close> at angle \<open>2 * pi * i / 5\<close> on the
  circle of radius \<open>0.35 * min width height\<close> around the hub. It returns exactly 10
  directed paths: for each device, in order, the path hub to device and the path device
  to hub.
\<close>

theorem C4_star_layout:
  "(let hub = \<lparr> node.x = width / 2, node.y = height / 2, label = Some ''Router/Hub'' \<rparr>;
        device = (\<lambda>i. \<lparr> node.x = width / 2 + 0.35 * min width height * cos (2 * pi * real i / 5),
                        node.y = height / 2 + 0.35 * min width height * sin (2 * pi * real i / 5),
                        label = Some (''Device '' @ showNat (i + 1)) \<rparr>);
        devices = map device [0, 1, 2, 3, 4];
        ops = fst (drawStarTopology width height r dColor cColor tColor);
        paths = snd (drawStarTopology width height r dColor cColor tColor)
    in drawnNodes ops = hub # devices \<and> length (drawnNodes ops) = 6 \<and>
       paths = concat (map (\<lambda>d. [[hub, d], [d, hub]]) devices) \<and> length paths = 10 \<and>
       map label devices = [Some ''Device 1'', Some ''Device 2'', Some ''Device 3'',
                            Some ''Device 4'', Some ''Device 5''])"
  by (simp add: drawStarTopology_def Let_def drawnNodes_def upt5 showNat_digits algebra_simps)

theorem C4_star_layout_witness:
  "length (drawnNodes (fst (drawStarTopology 400 300 15 deviceColor connectionColor textColor)))
     = 6 \<and>
   length (snd (drawStarTopology 400 300 15 deviceColor connectionColor textColor)) = 10 \<and>
   hd (drawnNodes (fst (drawStarTopology 400 300 15 deviceColor connectionColor textColor))) =
     \<lparr> node.x = 200, node.y = 150, label = Some ''Router/Hub'' \<rparr>"
  using C4_star_layout [of 400 300 15 deviceColor connectionColor textColor]
  by (simp add: Let_def)

text \<open>
  C5, amended. For every canvas size the bus layout draws exactly 5 nodes and returns
  exactly 8 directed paths, the 4 adjacent pairs of bus attachment points in both
  directions. The tree layout draws exactly 7 nodes and returns exactly 12 directed
  paths: its 6 parent-child edges, each in both directions.
\<close>

theorem C5_bus_tree_counts:
  "(let busNode = (\<lambda>i. \<lparr> node.x = width * 0.1 + real i * (width * 0.2), node.y = height / 2,
                         label = None \<rparr>);
        ops = fst (drawBusTopology width height r dColor cColor tColor);
        paths = snd (drawBusTopology width height r dColor cColor tColor)
    in length (drawnNodes ops) = 5 \<and> length paths = 8 \<and>
       paths = concat (map (\<lambda>i. [[busNode i, busNode (i + 1)], [busNode (i + 1), busNode i]])
                         [0, 1, 2, 3])) \<and>
   (let root = \<lparr> node.x = width / 2, node.y = height * 0.15, label = Some ''Root Hub'' \<rparr>;
        subA = \<lparr> node.x = width * 0.25, node.y = height * 0.45, label = Some ''Sub-Hub A'' \<rparr>;
        subB = \<lparr> node.x = width * 0.75, node.y = height * 0.45, label = Some ''Sub-Hub B'' \<rparr>;
        dev1 = \<lparr> node.x = width * 0.15, node.y = height * 0.75, label = Some ''Device 1'' \<rparr>;
        dev2 = \<lparr> node.x = width * 0.35, node.y = height * 0.75, label = Some ''Device 2'' \<rparr>;
        dev3 = \<lparr> node.x = width * 0.65, node.y = height * 0.75, label = Some ''Device 3'' \<rparr>;
        dev4 = \<lparr> node.x = width * 0.85, node.y = height * 0.75, label = Some ''Device 4'' \<rparr>;
        ops = fst (drawTreeTopology width height r dColor cColor tColor);
        paths = snd (drawTreeTopology width height r dColor cColor tColor)
    in drawnNodes ops = [root, subA, subB, dev1, dev2, dev3, dev4] \<and>
       length (drawnNodes ops) = 7 \<and> length paths = 12 \<and>
       paths = [[root, subA], [subA, root], [root, subB], [subB, root],
                [subA, dev1], [dev1, subA], [subA, dev2], [dev2, subA],
                [subB, dev3], [dev3, subB], [subB, dev4], [dev4, subB]])"
proof -
  have bus: "(let busNode = (\<lambda>i. \<lparr> node.x = width * 0.1 + real i * (width * 0.2), node.y = height / 2,
                         label = None \<rparr>);
        ops = fst (drawBusTopology width height r dColor cColor tColor);
        paths = snd (drawBusTopology width height r dColor cColor tColor)
    in length (drawnNodes ops) = 5 \<and> length paths = 8 \<and>
       paths = concat (map (\<lambda>i. [[busNode i, busNode (i + 1)], [busNode (i + 1), busNode i]])
                         [0, 1, 2, 3]))"
    by (simp add: drawBusTopology_def Let_def drawnNodes_def upt5 upt4 algebra_simps)
  have tree: "(let root = \<lparr> node.x = width / 2, node.y = height * 0.15, label = Some ''Root Hub'' \<rparr>;
        subA = \<lparr> node.x = width * 0.25, node.y = height * 0.45, label = Some ''Sub-Hub A'' \<rparr>;
        subB = \<lparr> node.x = width * 0.75, node.y = height * 0.45, label = Some ''Sub-Hub B'' \<rparr>;
        dev1 = \<lparr> node.x = width * 0.15, node.y = height * 0.75, label = Some ''Device 1'' \<rparr>;
        dev2 = \<lparr> node.x = width * 0.35, node.y = height * 0.75, label = Some ''Device 2'' \<rparr>;
        dev3 = \<lparr> node.x = width * 0.65, node.y = height * 0.75, label = Some ''Device 3'' \<rparr>;
        dev4 = \<lparr> node.x = width * 0.85, node.y = height * 0.75, label = Some ''Device 4'' \<rparr>;
        ops = fst (drawTreeTopology width height r dColor cColor tColor);
        paths = snd (drawTreeTopology width height r dColor cColor tColor)
    in drawnNodes ops = [root, subA, subB, dev1, dev2, dev3, dev4] \<and>
       length (drawnNodes ops) = 7 \<and> length paths = 12 \<and>
       paths = [[root, subA], [subA, root], [root, subB], [subB, root],
                [subA, dev1], [dev1, subA], [subA, dev2], [dev2, subA],
                [subB, dev3], [dev3, subB], [subB, dev4], [dev4, subB]])"
    by (simp add: drawTreeTopology_def Let_def drawnNodes_def)
  from bus tree show ?thesis by blast
qed

theorem C5_bus_tree_counts_witness:
  "length (drawnNodes (fst (drawBusTopology 400 240 15 deviceColor connectionColor textColor))) = 5 \<and>
   length (snd (drawBusTopology 400 240 15 deviceColor connectionColor textColor)) = 8 \<and>
   length (drawnNodes (fst (drawTreeTopology 400 240 15 deviceColor connectionColor textColor))) = 7 \<and>
   length (snd (drawTreeTopology 400 240 15 deviceColor connectionColor textColor)) = 12"
  using C5_bus_tree_counts [of 400 240 15 deviceColor connectionColor textColor]
  by (simp add: Let_def)

text \<open>C5 as stated fails: on a 400 x 240 canvas the tree layout does not return 14 paths.\<close>

theorem C5_tree_paths_counterexample:
  "length (snd (drawTreeTopology 400 240 15 deviceColor connectionColor textColor)) \<noteq> 14"
  by (simp add: drawTreeTopology_def Let_def)

text \<open>
  C2, amended. For every width, height and radius: each path returned by the star, mesh,
  tree and hybrid layouts has two points, both among the nodes that the same call drew
  (mesh and hybrid: whenever the call returns). Each path returned by the bus layout has
  two points that are not drawn nodes but attachment points on the bus line: unlabelled,
  at \<open>y = height / 2\<close>, and with the \<open>x\<close> of a drawn device, which lies at
  \<open>y = height / 2 + r * 2\<close>.
\<close>

theorem C2_path_endpoints:
  "(\<forall>p\<in>set (snd (drawStarTopology width height r dColor cColor tColor)).
      length p = 2 \<and>
      set p \<subseteq> set (drawnNodes (fst (drawStarTopology width height r dColor cColor tColor)))) \<and>
   (drawMeshTopology width height r dColor cColor tColor rnd pos = Some (meshOps, meshPaths, pos')
      \<longrightarrow> (\<forall>p\<in>set meshPaths. length p = 2 \<and> set p \<subseteq> set (drawnNodes meshOps))) \<and>
   (\<forall>p\<in>set (snd (drawTreeTopology width height r dColor cColor tColor)).
      length p = 2 \<and>
      set p \<subseteq> set (drawnNodes (fst (drawTreeTopology width height r dColor cColor tColor)))) \<and>
   (drawHybridTopology width height r dColor cColor tColor rnd pos
        = Some (hybridOps, hybridPaths, pos'')
      \<longrightarrow> (\<forall>p\<in>set hybridPaths. length p = 2 \<and> set p \<subseteq> set (drawnNodes hybridOps))) \<and>
   (\<forall>p\<in>set (snd (drawBusTopology width height r dColor cColor tColor)).
      length p = 2 \<and>
      (\<forall>n\<in>set p. label n = None \<and> node.y n = height / 2 \<and>
         (\<exists>d\<in>set (drawnNodes (fst (drawBusTopology width height r dColor cColor tColor))).
            node.x d = node.x n \<and> node.y d = height / 2 + r * 2)))"
proof -
  have star: "\<forall>p\<in>set (snd (drawStarTopology width height r dColor cColor tColor)).
      length p = 2 \<and>
      set p \<subseteq> set (drawnNodes (fst (drawStarTopology width height r dColor cColor tColor)))"
    by (simp add: drawStarTopology_def Let_def drawnNodes_def upt5)
  have tree: "\<forall>p\<in>set (snd (drawTreeTopology width height r dColor cColor tColor)).
      length p = 2 \<and>
      set p \<subseteq> set (drawnNodes (fst (drawTreeTopology width height r dColor cColor tColor)))"
    by (simp add: drawTreeTopology_def Let_def drawnNodes_def)
  have bus: "\<forall>p\<in>set (snd (drawBusTopology width height r dColor cColor tColor)).
      length p = 2 \<and>
      (\<forall>n\<in>set p. label n = None \<and> node.y n = height / 2 \<and>
         (\<exists>d\<in>set (drawnNodes (fst (drawBusTopology width height r dColor cColor tColor))).
            node.x d = node.x n \<and> node.y d = height / 2 + r * 2))"
    by (simp add: drawBusTopology_def Let_def drawnNodes_def upt5 upt4)
  have mesh: "drawMeshTopology width height r dColor cColor tColor rnd pos
        = Some (meshOps, meshPaths, pos')
      \<longrightarrow> (\<forall>p\<in>set meshPaths. length p = 2 \<and> set p \<subseteq> set (drawnNodes meshOps))"
    using mesh_endpoints by blast
  have hybrid: "drawHybridTopology width height r dColor cColor tColor rnd pos
        = Some (hybridOps, hybridPaths, pos'')
      \<longrightarrow> (\<forall>p\<in>set hybridPaths. length p = 2 \<and> set p \<subseteq> set (drawnNodes hybridOps))"
    using hybrid_endpoints by blast
  from star mesh tree hybrid bus show ?thesis
    by blast
qed

theorem C2_path_endpoints_witness:
  "drawMeshTopology 400 240 15 deviceColor connectionColor textColor sampleRng 0 \<noteq> None \<and>
   drawHybridTopology 400 240 15 deviceColor connectionColor textColor sampleRng 0 \<noteq> None \<and>
   list_all (\<lambda>p. length p = 2 \<and>
               set p \<subseteq> set (drawnNodes (fst (the (drawMeshTopology 400 240 15 deviceColor
                                                     connectionColor textColor sampleRng 0)))))
     (fst (snd (the (drawMeshTopology 400 240 15 deviceColor connectionColor textColor
                       sampleRng 0)))) \<and>
   list_all (\<lambda>p. length p = 2 \<and>
               set p \<subseteq> set (drawnNodes (fst (the (drawHybridTopology 400 240 15 deviceColor
                                                     connectionColor textColor sampleRng 0)))))
     (fst (snd (the (drawHybridTopology 400 240 15 deviceColor connectionColor textColor
                       sampleRng 0)))) \<and>
   list_all (\<lambda>p. length p = 2 \<and>
               set p \<subseteq> set (drawnNodes (fst (drawStarTopology 400 240 15 deviceColor
                                                connectionColor textColor))))
     (snd (drawStarTopology 400 240 15 deviceColor connectionColor textColor)) \<and>
   list_all (\<lambda>p. length p = 2 \<and>
               set p \<subseteq> set (drawnNodes (fst (drawTreeTopology 400 240 15 deviceColor
                                                connectionColor textColor))))
     (snd (drawTreeTopology 400 240 15 deviceColor connectionColor textColor)) \<and>
   list_all (\<lambda>p. list_all (\<lambda>n. label n = None \<and> node.y n = 240 / 2) p)
     (snd (drawBusTopology 400 240 15 deviceColor connectionColor textColor))"
proof -
  have some: "drawMeshTopology 400 240 15 deviceColor connectionColor textColor sampleRng 0
                \<noteq> None"
    "drawHybridTopology 400 240 15 deviceColor connectionColor textColor sampleRng 0 \<noteq> None"
    by (simp_all add: drawMeshTopology_def drawHybridTopology_def sample_mesh sample_hybrid
        Let_def)
  from C2_path_endpoints [of 400 240 15 deviceColor connectionColor textColor sampleRng 0
      "fst (the (drawMeshTopology 400 240 15 deviceColor connectionColor textColor sampleRng 0))"
      "fst (snd (the (drawMeshTopology 400 240 15 deviceColor connectionColor textColor
                        sampleRng 0)))"
      12
      "fst (the (drawHybridTopology 400 240 15 deviceColor connectionColor textColor sampleRng 0))"
      "fst (snd (the (drawHybridTopology 400 240 15 deviceColor connectionColor textColor
                        sampleRng 0)))"
      8]
  have inst: "(\<forall>p\<in>set (snd (drawStarTopology 400 240 15 deviceColor connectionColor textColor)).
      length p = 2 \<and>
      set p \<subseteq> set (drawnNodes (fst (drawStarTopology 400 240 15 deviceColor connectionColor
                                        textColor)))) \<and>
   (\<forall>p\<in>set (fst (snd (the (drawMeshTopology 400 240 15 deviceColor connectionColor textColor
                               sampleRng 0)))).
      length p = 2 \<and>
      set p \<subseteq> set (drawnNodes (fst (the (drawMeshTopology 400 240 15 deviceColor
                                             connectionColor textColor sampleRng 0))))) \<and>
   (\<forall>p\<in>set (snd (drawTreeTopology 400 240 15 deviceColor connectionColor textColor)).
      length p = 2 \<and>
      set p \<subseteq> set (drawnNodes (fst (drawTreeTopology 400 240 15 deviceColor connectionColor
                                        textColor)))) \<and>
   (\<forall>p\<in>set (fst (snd (the (drawHybridTopology 400 240 15 deviceColor connectionColor textColor
                               sampleRng 0)))).
      length p = 2 \<and>
      set p \<subseteq> set (drawnNodes (fst (the (drawHybridTopology 400 240 15 deviceColor
                                             connectionColor textColor sampleRng 0))))) \<and>
   (\<forall>p\<in>set (snd (drawBusTopology 400 240 15 deviceColor connectionColor textColor)).
      \<forall>n\<in>set p. label n = None \<and> node.y n = 240 / 2)"
    using sample_mesh_draw sample_hybrid_draw by blast
  from some inst show ?thesis
    unfolding list_all_iff by blast
qed

text \<open>
  C2 as stated fails: on a 400 x 240 canvas with radius 15 the points of the first bus
  path are not among the drawn nodes.
\<close>

theorem C2_bus_endpoints_counterexample:
  "\<not> set (hd (snd (drawBusTopology 400 240 15 deviceColor connectionColor textColor)))
      \<subseteq> set (drawnNodes (fst (drawBusTopology 400 240 15 deviceColor connectionColor textColor)))"
  by (simp add: drawBusTopology_def Let_def drawnNodes_def upt5 upt4)

text \<open>
  C3. Whenever the placement loops of the mesh layout return, they have placed 5 devices
  and every two distinct devices are at Euclidean distance at least \<open>4 * r\<close>; whenever
  the placement loops of the mesh cluster of the hybrid layout return, they have placed 3
  devices with the same spacing. This holds for every random stream, hence for any
  number of rejected candidates. The devices are the nodes that \<^verbatim>\<open>drawMeshTopology\<close>
  draws, and the nodes that \<^verbatim>\<open>drawHybridTopology\<close> draws after the 4 nodes of its star.
\<close>

theorem C3_mesh_spacing:
  "(meshPlacement width height r rnd pos = Some (devices, pos') \<longrightarrow>
      length devices = 5 \<and>
      (\<forall>i j. i < length devices \<and> j < length devices \<and> i \<noteq> j \<longrightarrow>
         r * 4 \<le> sqrt ((node.x (devices ! j) - node.x (devices ! i))\<^sup>2 +
                         (node.y (devices ! j) - node.y (devices ! i))\<^sup>2))) \<and>
   (hybridMeshPlacement width height r rnd pos = Some (meshDevices, pos'') \<longrightarrow>
      length meshDevices = 3 \<and>
      (\<forall>i j. i < length meshDevices \<and> j < length meshDevices \<and> i \<noteq> j \<longrightarrow>
         r * 4 \<le> sqrt ((node.x (meshDevices ! j) - node.x (meshDevices ! i))\<^sup>2 +
                         (node.y (meshDevices ! j) - node.y (meshDevices ! i))\<^sup>2))) \<and>
   (drawMeshTopology width height r dColor cColor tColor rnd pos = Some (ops, paths, pos')
      \<longrightarrow> meshPlacement width height r rnd pos = Some (drawnNodes ops, pos')) \<and>
   (drawHybridTopology width height r dColor cColor tColor rnd pos = Some (ops', paths', pos'')
      \<longrightarrow> hybridMeshPlacement width height r rnd pos = Some (drop 4 (drawnNodes ops'), pos''))"
proof -
  have pairs: "r * 4 \<le> sqrt ((node.x (ds ! j) - node.x (ds ! i))\<^sup>2 +
                              (node.y (ds ! j) - node.y (ds ! i))\<^sup>2)"
    if "farApart r ds" "i < length ds" "j < length ds" "i \<noteq> j" for ds i j
  proof (cases "i < j")
    case True
    from farApart_nth [OF that(1) True that(3)] show ?thesis
      by (simp add: segmentLength_def)
  next
    case False
    with that(4) have "j < i" by simp
    from farApart_nth [OF that(1) this that(2)] show ?thesis
      by (simp add: segmentLength_sym [of "ds ! j"]) (simp add: segmentLength_def)
  qed
  have mesh: "length devices = 5 \<and> farApart r devices"
    if "meshPlacement width height r rnd pos = Some (devices, pos')"
    using that placeDevices_farApart [of rnd _ _ r _ "[0..<5]" "[]" pos devices pos']
      placeDevices_length [of rnd _ _ r _ "[0..<5]" "[]" pos devices pos']
    by (simp add: meshPlacement_def Let_def)
  have hybrid: "length meshDevices = 3 \<and> farApart r meshDevices"
    if "hybridMeshPlacement width height r rnd pos = Some (meshDevices, pos'')"
    using that placeDevices_farApart [of rnd _ _ r _ "[0..<3]" "[]" pos meshDevices pos'']
      placeDevices_length [of rnd _ _ r _ "[0..<3]" "[]" pos meshDevices pos'']
    by (simp add: hybridMeshPlacement_def Let_def)
  have c1: "meshPlacement width height r rnd pos = Some (devices, pos') \<longrightarrow>
      length devices = 5 \<and>
      (\<forall>i j. i < length devices \<and> j < length devices \<and> i \<noteq> j \<longrightarrow>
         r * 4 \<le> sqrt ((node.x (devices ! j) - node.x (devices ! i))\<^sup>2 +
                         (node.y (devices ! j) - node.y (devices ! i))\<^sup>2))"
    using mesh pairs by blast
  have c2: "hybridMeshPlacement width height r rnd pos = Some (meshDevices, pos'') \<longrightarrow>
      length meshDevices = 3 \<and>
      (\<forall>i j. i < length meshDevices \<and> j < length meshDevices \<and> i \<noteq> j \<longrightarrow>
         r * 4 \<le> sqrt ((node.x (meshDevices ! j) - node.x (meshDevices ! i))\<^sup>2 +
                         (node.y (meshDevices ! j) - node.y (meshDevices ! i))\<^sup>2))"
    using hybrid pairs by blast
  have c3: "drawMeshTopology width height r dColor cColor tColor rnd pos = Some (ops, paths, pos')
      \<longrightarrow> meshPlacement width height r rnd pos = Some (drawnNodes ops, pos')"
    using mesh_drawn by blast
  have c4: "drawHybridTopology width height r dColor cColor tColor rnd pos
        = Some (ops', paths', pos'')
      \<longrightarrow> hybridMeshPlacement width height r rnd pos = Some (drop 4 (drawnNodes ops'), pos'')"
    using hybrid_drawn by blast
  from c1 c2 c3 c4 show ?thesis
    by blast
qed

theorem C3_mesh_spacing_witness:
  "meshPlacement 400 240 15 sampleRng 0 = Some (sampleMeshDevices, 12) \<and>
   hybridMeshPlacement 400 240 15 sampleRng 0 = Some (sampleHybridDevices, 8) \<and>
   length sampleMeshDevices = 5 \<and> length sampleHybridDevices = 3 \<and>
   15 * 4 \<le> sqrt ((node.x (sampleMeshDevices ! 0) - node.x (sampleMeshDevices ! 4))\<^sup>2 +
                   (node.y (sampleMeshDevices ! 0) - node.y (sampleMeshDevices ! 4))\<^sup>2) \<and>
   15 * 4 \<le> sqrt ((node.x (sampleHybridDevices ! 1) - node.x (sampleHybridDevices ! 0))\<^sup>2 +
                   (node.y (sampleHybridDevices ! 1) - node.y (sampleHybridDevices ! 0))\<^sup>2) \<and>
   sqrt ((node.x (sampleHybridDevices ! 1) - node.x (sampleHybridDevices ! 0))\<^sup>2 +
         (node.y (sampleHybridDevices ! 1) - node.y (sampleHybridDevices ! 0))\<^sup>2) = 15 * 4 \<and>
   drawnNodes (fst (the (drawMeshTopology 400 240 15 deviceColor connectionColor
                           textColor sampleRng 0))) = sampleMeshDevices \<and>
   drop 4 (drawnNodes (fst (the (drawHybridTopology 400 240 15 deviceColor connectionColor
                                   textColor sampleRng 0)))) = sampleHybridDevices"
proof -
  have edge: "sqrt ((node.x (sampleHybridDevices ! 1) - node.x (sampleHybridDevices ! 0))\<^sup>2 +
         (node.y (sampleHybridDevices ! 1) - node.y (sampleHybridDevices ! 0))\<^sup>2) = 15 * 4"
    by (simp add: sampleHybridDevices_def real_sqrt_unique)
  note inst = C3_mesh_spacing [of 400 240 15 sampleRng 0 sampleMeshDevices 12
      sampleHybridDevices 8 deviceColor connectionColor textColor
      "fst (the (drawMeshTopology 400 240 15 deviceColor connectionColor textColor sampleRng 0))"
      "fst (snd (the (drawMeshTopology 400 240 15 deviceColor connectionColor textColor
                        sampleRng 0)))"
      "fst (the (drawHybridTopology 400 240 15 deviceColor connectionColor textColor sampleRng 0))"
      "fst (snd (the (drawHybridTopology 400 240 15 deviceColor connectionColor textColor
                        sampleRng 0)))"]
  from inst sample_mesh have mesh: "length sampleMeshDevices = 5"
    "\<forall>i j. i < length sampleMeshDevices \<and> j < length sampleMeshDevices \<and> i \<noteq> j \<longrightarrow>
       15 * 4 \<le> sqrt ((node.x (sampleMeshDevices ! j) - node.x (sampleMeshDevices ! i))\<^sup>2 +
                       (node.y (sampleMeshDevices ! j) - node.y (sampleMeshDevices ! i))\<^sup>2)"
    by blast+
  from inst sample_hybrid have hybrid: "length sampleHybridDevices = 3"
    "\<forall>i j. i < length sampleHybridDevices \<and> j < length sampleHybridDevices \<and> i \<noteq> j \<longrightarrow>
       15 * 4 \<le> sqrt ((node.x (sampleHybridDevices ! j) - node.x (sampleHybridDevices ! i))\<^sup>2 +
                       (node.y (sampleHybridDevices ! j) - node.y (sampleHybridDevices ! i))\<^sup>2)"
    by blast+
  from inst sample_mesh_draw sample_mesh
  have drawn_mesh: "drawnNodes (fst (the (drawMeshTopology 400 240 15 deviceColor connectionColor
                           textColor sampleRng 0))) = sampleMeshDevices"
    by simp
  from inst sample_hybrid_draw sample_hybrid
  have drawn_hybrid: "drop 4 (drawnNodes (fst (the (drawHybridTopology 400 240 15 deviceColor
                           connectionColor textColor sampleRng 0)))) = sampleHybridDevices"
    by simp
  from mesh(2) [rule_format, of 4 0] mesh(1)
  have far_mesh: "15 * 4 \<le> sqrt ((node.x (sampleMeshDevices ! 0) - node.x (sampleMeshDevices ! 4))\<^sup>2 +
                   (node.y (sampleMeshDevices ! 0) - node.y (sampleMeshDevices ! 4))\<^sup>2)"
    by simp
  from hybrid(2) [rule_format, of 0 1] hybrid(1)
  have far_hybrid: "15 * 4 \<le> sqrt ((node.x (sampleHybridDevices ! 1) - node.x (sampleHybridDevices ! 0))\<^sup>2 +
                   (node.y (sampleHybridDevices ! 1) - node.y (sampleHybridDevices ! 0))\<^sup>2)"
    by simp
  from sample_mesh sample_hybrid mesh(1) hybrid(1) far_mesh far_hybrid edge drawn_mesh
    drawn_hybrid
  show ?thesis
    by blast
qed

section \<open>Frame loop\<close>

text \<open>
  C7, amended. For every prior packet array (its elements and its
  \<^verbatim>\<open>lastSpawnTime\<close>) and every prior \<^verbatim>\<open>lastTime\<close>, the state after
  \<^verbatim>\<open>resizeCanvas\<close> does not depend on them and keeps no prior packet: the
  packet array holds at most one packet, and a packet in it was created by the frame
  that \<^verbatim>\<open>resizeCanvas\<close> runs and advanced by that frame with elapsed time 0, so its
  travelled distance is 0.
\<close>

theorem C7_resize_restart:
  assumes "resizeCanvas selectedTopology rnd offsetWidth now st = Some st'"
  shows "length (elems (packets st')) \<le> 1 \<and>
         (\<forall>q\<in>set (elems (packets st')).
            distanceTraveled q = 0 \<and>
            (\<exists>currentPath newPacket. createPacket currentPath = Some newPacket \<and>
               updatePacket 0 newPacket = (True, q))) \<and>
         resizeCanvas selectedTopology rnd offsetWidth now (st\<lparr>packets := pa, lastTime := lt\<rparr>)
           = Some st'"
proof -
  let ?st3 = "st\<lparr>canvasWidth := real offsetWidth,
                 canvasHeight := of_int \<lfloor>min (real offsetWidth * 0.6) 400\<rfloor>,
                 lastTime := now, packets := \<lparr> elems = [], lastSpawnTime = None \<rparr>\<rparr>"
  from assms have run: "animate selectedTopology rnd now ?st3 = Some st'"
    by (simp add: resizeCanvas_def Let_def)
  from animate_elems [OF run] obtain st2 where
    sp: "animateSpawn selectedTopology rnd now ?st3 = Some (0, st2)" and
    out: "elems (packets st') = filterPackets 0 (elems (packets st2))"
    by auto
  from animateSpawn_elems [OF sp]
  consider (none) "elems (packets st2) = []" |
    (one) currentPath newPacket where "createPacket currentPath = Some newPacket"
      "elems (packets st2) = [newPacket]"
    by auto
  then have "length (elems (packets st')) \<le> 1 \<and>
         (\<forall>q\<in>set (elems (packets st')).
            distanceTraveled q = 0 \<and>
            (\<exists>currentPath newPacket. createPacket currentPath = Some newPacket \<and>
               updatePacket 0 newPacket = (True, q)))"
  proof cases
    case none
    then show ?thesis
      unfolding out by (simp add: filterPackets_def)
  next
    case one
    have fresh: "distanceTraveled newPacket = 0"
      using one(1) by (auto simp: createPacket_def split: if_splits)
    have moved: "distanceTraveled (snd (updatePacket 0 newPacket)) = 0"
      using fresh by (auto simp: updatePacket_def Let_def)
    show ?thesis
    proof (cases "fst (updatePacket 0 newPacket)")
      case True
      then have "updatePacket 0 newPacket = (True, snd (updatePacket 0 newPacket))"
        by (cases "updatePacket 0 newPacket") simp
      with True one moved show ?thesis
        unfolding out by (auto simp: filterPackets_def)
    next
      case False
      with one show ?thesis
        unfolding out by (simp add: filterPackets_def)
    qed
  qed
  with assms show ?thesis
    by (simp add: resizeCanvas_prior)
qed

theorem C7_resize_restart_witness:
  "resizeCanvas ''tree'' zeroRng 400 6000 sampleAnim \<noteq> None \<and>
   length (elems (packets (the (resizeCanvas ''tree'' zeroRng 400 6000 sampleAnim)))) \<le> 1 \<and>
   list_all (\<lambda>q. distanceTraveled q = 0)
     (elems (packets (the (resizeCanvas ''tree'' zeroRng 400 6000 sampleAnim)))) \<and>
   resizeCanvas ''tree'' zeroRng 400 6000
     (sampleAnim\<lparr>packets := \<lparr> elems = [], lastSpawnTime = None \<rparr>, lastTime := 0\<rparr>) =
   resizeCanvas ''tree'' zeroRng 400 6000 sampleAnim"
proof -
  from sample_resize
  have h: "resizeCanvas ''tree'' zeroRng 400 6000 sampleAnim =
             Some (the (resizeCanvas ''tree'' zeroRng 400 6000 sampleAnim))"
    by simp
  from C7_resize_restart [OF h, where pa = "\<lparr> elems = [], lastSpawnTime = None \<rparr>" and lt = 0]
    h sample_resize
  show ?thesis
    unfolding list_all_iff by auto
qed

text \<open>
  C7 as stated fails: a resize at time 6000 of a 400 pixel wide canvas showing the tree
  leaves one packet in the array.
\<close>

theorem C7_resize_not_empty_counterexample:
  "resizeCanvas ''tree'' zeroRng 400 6000 sampleAnim \<noteq> None \<and>
   length (elems (packets (the (resizeCanvas ''tree'' zeroRng 400 6000 sampleAnim)))) = 1"
  using sample_resize .

text \<open>
  C6 does not hold of the code. \<^verbatim>\<open>updatePackets\<close> replaces the array that carries
  \<^verbatim>\<open>lastSpawnTime\<close> in every frame, so the spawn check of the next frame reads 0 and
  passes whenever the timestamp exceeds 1000. After a first resize at time 1000 of a 400
  pixel wide canvas showing the bus, the four frames at 1016, 1032, 1048 and 1064 ms
  spawn four packets, where the claim allows at most one for a run this short.
\<close>

theorem C6_spawn_every_frame:
  "map_option fst
     (runFrames ''bus'' zeroRng [1016, 1032, 1048, 1064]
        (the (resizeCanvas ''bus'' zeroRng 400 1000 initialAnim))) = Some 4"
proof -
  have rnd: "\<forall>n. 0 \<le> zeroRng n \<and> zeroRng n < 1"
    by (simp add: zeroRng_def)
  from bus_frame_returns
  have none: "lastSpawnTime (packets (the (resizeCanvas ''bus'' zeroRng 400 1000 initialAnim)))
                = None"
    unfolding resizeCanvas_def Let_def by (metis option.sel)
  have late: "\<forall>t\<in>set [1016, 1032, 1048, 1064 :: real]. packetInterval < t"
    by (simp add: packetInterval_def)
  have count: "length [1016, 1032, 1048, 1064 :: real] = 4"
    by simp
  from bus_spawn_count [OF rnd none late] show ?thesis
    unfolding count .
qed

end
